theory Spec2Isabelle
  imports Complex_Main "HOL-Library.AList"
begin

section \<open>Data model\<close>

text \<open>
  Python values as they come out of \<open>response.json()\<close> and go into \<open>json=\<close>:
  \<open>JNull\<close> is Python's \<open>None\<close>, a dict is an association list looked up with
  \<open>map_of\<close>.
\<close>

datatype json =
    JNull
  | JBool bool
  | JNum int
  | JStr string
  | JList "json list"
  | JObj "(string \<times> json) list"

text \<open>
  Exceptions. \<open>RequestException\<close> stands for every instance of
  \<open>requests.exceptions.RequestException\<close> (connection errors, timeouts, the
  \<open>HTTPError\<close> of \<open>raise_for_status\<close>); the other constructors are exceptions
  outside that class.
\<close>

datatype exn =
    RequestException string
  | TimeoutError string
  | ValueError string
  | AttributeError string
  | OtherException string

fun is_RequestException :: "exn \<Rightarrow> bool" where
  "is_RequestException (RequestException _) = True"
| "is_RequestException _ = False"

text \<open>\<open>config/settings.py\<close>: the fields the client and the helpers read.\<close>

record settings =
  TEAMCITY_URL :: string
  TEAMCITY_USERNAME :: string
  TEAMCITY_PASSWORD :: string
  TEAMCITY_TOKEN :: string
  TIMEOUT :: int
  POLL_INTERVAL :: int
  MAX_RETRIES :: int

definition default_settings :: settings where
  "default_settings =
     \<lparr> TEAMCITY_URL = ''http://localhost:8111'',
       TEAMCITY_USERNAME = ''admin'',
       TEAMCITY_PASSWORD = ''admin'',
       TEAMCITY_TOKEN = '''',
       TIMEOUT = 30,
       POLL_INTERVAL = 2,
       MAX_RETRIES = 3 \<rparr>"

text \<open>\<open>Settings.auth\<close>: a header dict when a token is set, else a tuple.\<close>

datatype auth_value =
    AuthHeaders "(string \<times> string) list"
  | AuthTuple string string

definition settings_auth :: "settings \<Rightarrow> auth_value" where
  "settings_auth s =
     (if TEAMCITY_TOKEN s \<noteq> []
      then AuthHeaders [(''Authorization'', ''Bearer '' @ TEAMCITY_TOKEN s)]
      else AuthTuple (TEAMCITY_USERNAME s) (TEAMCITY_PASSWORD s))"

text \<open>
  A \<open>requests.Session\<close>: its \<open>auth\<close> attribute and its header dict. A fresh
  session has no auth and the library's default headers, none of them
  \<open>Authorization\<close>.
\<close>

record session =
  session_auth :: "(string \<times> string) option"
  headers :: "(string \<times> string) list"

definition requests_Session :: session where
  "requests_Session =
     \<lparr> session_auth = None,
       headers = [(''User-Agent'', ''python-requests''),
                  (''Accept-Encoding'', ''gzip, deflate''),
                  (''Accept'', ''*/*''),
                  (''Connection'', ''keep-alive'')] \<rparr>"

definition dict_update ::
  "(string \<times> string) list \<Rightarrow> (string \<times> string) list \<Rightarrow> (string \<times> string) list" where
  "dict_update hs new = fold (\<lambda>(k, v) h. AList.update k v h) new hs"

record client =
  base_url :: string
  auth :: auth_value
  session :: session

text \<open>\<open>TeamCityClient.__init__\<close>.\<close>

definition TeamCityClient_init :: "settings \<Rightarrow> client" where
  "TeamCityClient_init cfg =
     (let a = settings_auth cfg;
          s0 = requests_Session;
          s1 = (case a of
                  AuthTuple u p \<Rightarrow> s0\<lparr>session_auth := Some (u, p)\<rparr>
                | AuthHeaders h \<Rightarrow> s0\<lparr>headers := dict_update (headers s0) h\<rparr>);
          s2 = s1\<lparr>headers := dict_update (headers s1)
                   [(''Accept'', ''application/json''),
                    (''Content-Type'', ''application/json'')]\<rparr>
      in \<lparr> base_url = TEAMCITY_URL cfg, auth = a, session = s2 \<rparr>)"

text \<open>
  What \<open>self.session.request(method, url, **kwargs)\<close> is called with: the session
  it is called on, the HTTP verb, the URL and the \<open>json=\<close> keyword when given.
\<close>

record request =
  via :: session
  http_method :: string
  url :: string
  json_payload :: "json option"

text \<open>
  A response object: its status and what \<open>response.json()\<close> does (a decoded value
  or an exception).
\<close>

record response =
  status_code :: nat
  json_body :: "exn + json"

section \<open>The world outside the program\<close>

text \<open>
  The clock \<open>time.time()\<close> in whole ticks, the number of HTTP requests issued, the
  number of calls made to a caller-supplied predicate, and the chronological trace of
  what the program did to the outside.
\<close>

datatype event =
    Sent request
  | Slept int
  | Evaluated nat

record world =
  clock :: int
  sent :: nat
  calls :: nat
  trace :: "event list"

definition world0 :: world where
  "world0 = \<lparr> clock = 0, sent = 0, calls = 0, trace = [] \<rparr>"

text \<open>
  The remote server, the \<open>requests\<close> library and the machine the tests run on: the
  outcome of the k-th \<open>session.request\<close> call (an exception or a response) with the
  time it takes, what \<open>raise_for_status\<close> does on a response, and the credentials
  the user's \<open>netrc\<close> file holds for a URL.
\<close>

record env =
  session_request :: "nat \<Rightarrow> request \<Rightarrow> (exn + response) \<times> nat"
  raise_for_status :: "response \<Rightarrow> exn option"
  netrc_auth :: "string \<Rightarrow> (string \<times> string) option"

text \<open>\<open>time.sleep\<close>: a negative argument raises \<open>ValueError\<close>.\<close>

definition time_sleep :: "int \<Rightarrow> world \<Rightarrow> (exn + unit) \<times> world" where
  "time_sleep d w =
     (if d < 0 then (Inl (ValueError ''sleep length must be non-negative''), w)
      else (Inr (), w\<lparr>clock := clock w + d, trace := trace w @ [Slept d]\<rparr>))"

section \<open>The retrying client\<close>

text \<open>
  The body of the \<open>try\<close> in \<open>_make_request\<close>: send the request, then
  \<open>raise_for_status\<close>, then the response.
\<close>

definition try_request :: "env \<Rightarrow> request \<Rightarrow> world \<Rightarrow> (exn + response) \<times> world" where
  "try_request ev req w =
     (let (r, d) = session_request ev (sent w) req;
          w1 = w\<lparr>clock := clock w + int d, sent := Suc (sent w),
                 trace := trace w @ [Sent req]\<rparr>
      in case r of
           Inl e \<Rightarrow> (Inl e, w1)
         | Inr resp \<Rightarrow>
             (case raise_for_status ev resp of
                Some e \<Rightarrow> (Inl e, w1)
              | None \<Rightarrow> (Inr resp, w1)))"

text \<open>
  The \<open>for attempt in range(settings.MAX_RETRIES)\<close> loop from \<open>attempt\<close> on. A loop
  that runs out without returning makes the function return \<open>None\<close>.
\<close>

function make_request_from ::
  "settings \<Rightarrow> env \<Rightarrow> request \<Rightarrow> nat \<Rightarrow> world \<Rightarrow> (exn + response option) \<times> world" where
  "make_request_from cfg ev req attempt w =
     (if int attempt < MAX_RETRIES cfg then
        (case try_request ev req w of
           (Inr resp, w1) \<Rightarrow> (Inr (Some resp), w1)
         | (Inl e, w1) \<Rightarrow>
             if is_RequestException e then
               (if int attempt = MAX_RETRIES cfg - 1 then (Inl e, w1)
                else (case time_sleep (POLL_INTERVAL cfg) w1 of
                        (Inl e', w2) \<Rightarrow> (Inl e', w2)
                      | (Inr u, w2) \<Rightarrow> make_request_from cfg ev req (Suc attempt) w2))
             else (Inl e, w1))
      else (Inr None, w))"
  by pat_completeness auto
termination
  by (relation "measure (\<lambda>(cfg, ev, req, attempt, w). nat (MAX_RETRIES cfg - int attempt))") auto

declare make_request_from.simps [simp del]

text \<open>
  The request \<open>_make_request\<close> hands to the session: the URL is
  \<open>f"{self.base_url}/app/rest{endpoint}"\<close>, the keyword arguments are passed on.
\<close>

definition request_for :: "client \<Rightarrow> string \<Rightarrow> string \<Rightarrow> json option \<Rightarrow> request" where
  "request_for c meth endpoint payload =
     \<lparr> via = session c, http_method = meth, url = base_url c @ ''/app/rest'' @ endpoint,
       json_payload = payload \<rparr>"

text \<open>\<open>TeamCityClient._make_request\<close>.\<close>

definition make_request ::
  "settings \<Rightarrow> env \<Rightarrow> client \<Rightarrow> string \<Rightarrow> string \<Rightarrow> json option \<Rightarrow> world
     \<Rightarrow> (exn + response option) \<times> world" where
  "make_request cfg ev c meth endpoint payload w =
     make_request_from cfg ev (request_for c meth endpoint payload) 0 w"

text \<open>\<open>response.json()\<close> on what \<open>_make_request\<close> returned.\<close>

definition response_json :: "response option \<Rightarrow> exn + json" where
  "response_json r =
     (case r of
        None \<Rightarrow> Inl (AttributeError ''NoneType object has no attribute json'')
      | Some resp \<Rightarrow> json_body resp)"

text \<open>\<open>d.get(k, default)\<close>; only a dict has it.\<close>

definition dict_get :: "json \<Rightarrow> string \<Rightarrow> json \<Rightarrow> exn + json" where
  "dict_get j k dflt =
     (case j of
        JObj kvs \<Rightarrow> Inr (case map_of kvs k of None \<Rightarrow> dflt | Some v \<Rightarrow> v)
      | _ \<Rightarrow> Inl (AttributeError ''object has no attribute get''))"

text \<open>
  The two lines \<open>response = self._make_request(...); return response.json()\<close>
  shared by most wrappers.
\<close>

definition returning_json ::
  "(exn + response option) \<times> world \<Rightarrow> (exn + json) \<times> world" where
  "returning_json rw =
     (case rw of
        (Inl e, w) \<Rightarrow> (Inl e, w)
      | (Inr resp, w) \<Rightarrow> (response_json resp, w))"

definition get_projects :: "settings \<Rightarrow> env \<Rightarrow> client \<Rightarrow> world \<Rightarrow> (exn + json) \<times> world" where
  "get_projects cfg ev c w =
     (case returning_json (make_request cfg ev c ''GET'' ''/projects'' None w) of
        (Inl e, w1) \<Rightarrow> (Inl e, w1)
      | (Inr j, w1) \<Rightarrow> (dict_get j ''project'' (JList []), w1))"

definition get_project ::
  "settings \<Rightarrow> env \<Rightarrow> client \<Rightarrow> string \<Rightarrow> world \<Rightarrow> (exn + json) \<times> world" where
  "get_project cfg ev c project_id w =
     returning_json (make_request cfg ev c ''GET'' (''/projects/'' @ project_id) None w)"

definition create_project ::
  "settings \<Rightarrow> env \<Rightarrow> client \<Rightarrow> json \<Rightarrow> world \<Rightarrow> (exn + json) \<times> world" where
  "create_project cfg ev c project_data w =
     returning_json (make_request cfg ev c ''POST'' ''/projects'' (Some project_data) w)"

definition delete_project ::
  "settings \<Rightarrow> env \<Rightarrow> client \<Rightarrow> string \<Rightarrow> world \<Rightarrow> (exn + bool) \<times> world" where
  "delete_project cfg ev c project_id w =
     (case make_request cfg ev c ''DELETE'' (''/projects/'' @ project_id) None w of
        (Inr resp, w1) \<Rightarrow> (Inr True, w1)
      | (Inl e, w1) \<Rightarrow> if is_RequestException e then (Inr False, w1) else (Inl e, w1))"

definition get_versioned_settings ::
  "settings \<Rightarrow> env \<Rightarrow> client \<Rightarrow> string \<Rightarrow> world \<Rightarrow> (exn + json) \<times> world" where
  "get_versioned_settings cfg ev c project_id w =
     returning_json
       (make_request cfg ev c ''GET''
          (''/projects/id:'' @ project_id @ ''/versionedSettings/status'') None w)"

definition enable_versioned_settings ::
  "settings \<Rightarrow> env \<Rightarrow> client \<Rightarrow> string \<Rightarrow> json \<Rightarrow> world \<Rightarrow> (exn + json) \<times> world" where
  "enable_versioned_settings cfg ev c project_id vcs_settings w =
     returning_json
       (make_request cfg ev c ''PUT''
          (''/projects/'' @ project_id @ ''/versionedSettings/config'') (Some vcs_settings) w)"

definition trigger_versioned_settings_sync ::
  "settings \<Rightarrow> env \<Rightarrow> client \<Rightarrow> string \<Rightarrow> world \<Rightarrow> (exn + json) \<times> world" where
  "trigger_versioned_settings_sync cfg ev c project_id w =
     returning_json
       (make_request cfg ev c ''POST''
          (''/projects/'' @ project_id @ ''/versionedSettings/synchronize'') None w)"

definition get_build_configurations ::
  "settings \<Rightarrow> env \<Rightarrow> client \<Rightarrow> string \<Rightarrow> world \<Rightarrow> (exn + json) \<times> world" where
  "get_build_configurations cfg ev c project_id w =
     (case returning_json
             (make_request cfg ev c ''GET'' (''/buildTypes?locator=project:'' @ project_id) None w) of
        (Inl e, w1) \<Rightarrow> (Inl e, w1)
      | (Inr j, w1) \<Rightarrow> (dict_get j ''buildType'' JNull, w1))"

text \<open>
  The dict \<open>trigger_build\<close> builds; \<open>if properties:\<close> is false for \<open>None\<close> and for
  the empty dict.
\<close>

definition build_data :: "string \<Rightarrow> (string \<times> string) list option \<Rightarrow> json" where
  "build_data build_config_id properties =
     (let d = [(''buildType'', JObj [(''id'', JStr build_config_id)])]
      in case properties of
           None \<Rightarrow> JObj d
         | Some ps \<Rightarrow>
             if ps = [] then JObj d
             else JObj (AList.update ''properties''
                    (JObj [(''property'',
                       JList (map (\<lambda>(k, v). JObj [(''name'', JStr k), (''value'', JStr v)]) ps))])
                    d))"

definition trigger_build ::
  "settings \<Rightarrow> env \<Rightarrow> client \<Rightarrow> string \<Rightarrow> (string \<times> string) list option \<Rightarrow> world
     \<Rightarrow> (exn + json) \<times> world" where
  "trigger_build cfg ev c build_config_id properties w =
     returning_json
       (make_request cfg ev c ''POST'' ''/buildQueue''
          (Some (build_data build_config_id properties)) w)"

definition get_build_status ::
  "settings \<Rightarrow> env \<Rightarrow> client \<Rightarrow> string \<Rightarrow> world \<Rightarrow> (exn + json) \<times> world" where
  "get_build_status cfg ev c build_id w =
     returning_json (make_request cfg ev c ''GET'' (''/builds/'' @ build_id) None w)"

definition get_vcs_roots ::
  "settings \<Rightarrow> env \<Rightarrow> client \<Rightarrow> string option \<Rightarrow> world \<Rightarrow> (exn + json) \<times> world" where
  "get_vcs_roots cfg ev c project_id w =
     (let endpoint = (case project_id of
                        None \<Rightarrow> ''/vcs-roots''
                      | Some p \<Rightarrow> if p = [] then ''/vcs-roots''
                                  else ''/vcs-roots'' @ ''?locator=project:'' @ p)
      in case returning_json (make_request cfg ev c ''GET'' endpoint None w) of
           (Inl e, w1) \<Rightarrow> (Inl e, w1)
         | (Inr j, w1) \<Rightarrow> (dict_get j ''vcs-root'' (JList []), w1))"

definition create_vcs_root ::
  "settings \<Rightarrow> env \<Rightarrow> client \<Rightarrow> json \<Rightarrow> world \<Rightarrow> (exn + json) \<times> world" where
  "create_vcs_root cfg ev c vcs_data w =
     returning_json (make_request cfg ev c ''POST'' ''/vcs-roots'' (Some vcs_data) w)"

text \<open>
  \<open>str(n)\<close> for an integer, as the f-string of the timeout message formats it.
\<close>

function str_nat :: "nat \<Rightarrow> string" where
  "str_nat n =
     (if n < 10 then [''0123456789'' ! n]
      else str_nat (n div 10) @ [''0123456789'' ! (n mod 10)])"
  by pat_completeness auto
termination
  by (relation "measure id") auto

declare str_nat.simps [simp del]

definition str_int :: "int \<Rightarrow> string" where
  "str_int i = (if i < 0 then CHR ''-'' # str_nat (nat (- i)) else str_nat (nat i))"

definition build_timeout_message :: "string \<Rightarrow> int \<Rightarrow> string" where
  "build_timeout_message build_id timeout =
     ''Build '' @ build_id @ '' did not complete within '' @ str_int timeout @ '' seconds''"

text \<open>
  The \<open>while\<close> loop of \<open>wait_for_build_completion\<close>. It need not end (a poll
  interval of zero against a server that answers in no time), so it returns an option.
\<close>

partial_function (option) build_wait_loop ::
  "settings \<Rightarrow> env \<Rightarrow> client \<Rightarrow> string \<Rightarrow> int \<Rightarrow> int \<Rightarrow> world
     \<Rightarrow> ((exn + json) \<times> world) option" where
  "build_wait_loop cfg ev c build_id timeout start_time w =
     (if clock w - start_time < timeout then
        (case get_build_status cfg ev c build_id w of
           (Inl e, w1) \<Rightarrow> Some (Inl e, w1)
         | (Inr build_info, w1) \<Rightarrow>
             (case dict_get build_info ''state'' JNull of
                Inl e \<Rightarrow> Some (Inl e, w1)
              | Inr state \<Rightarrow>
                  if state \<in> set [JStr ''finished'', JStr ''canceled'']
                  then Some (Inr build_info, w1)
                  else if state = JStr ''running'' then
                    (case time_sleep (POLL_INTERVAL cfg) w1 of
                       (Inl e, w2) \<Rightarrow> Some (Inl e, w2)
                     | (Inr u, w2) \<Rightarrow> build_wait_loop cfg ev c build_id timeout start_time w2)
                  else
                    (case time_sleep (POLL_INTERVAL cfg) w1 of
                       (Inl e, w2) \<Rightarrow> Some (Inl e, w2)
                     | (Inr u, w2) \<Rightarrow> build_wait_loop cfg ev c build_id timeout start_time w2)))
      else Some (Inl (TimeoutError (build_timeout_message build_id timeout)), w))"

text \<open>\<open>TeamCityClient.wait_for_build_completion\<close>; \<open>timeout\<close> defaults to 300.\<close>

definition wait_for_build_completion ::
  "settings \<Rightarrow> env \<Rightarrow> client \<Rightarrow> string \<Rightarrow> int option \<Rightarrow> world
     \<Rightarrow> ((exn + json) \<times> world) option" where
  "wait_for_build_completion cfg ev c build_id timeout w =
     build_wait_loop cfg ev c build_id (case timeout of None \<Rightarrow> 300 | Some t \<Rightarrow> t) (clock w) w"

section \<open>The condition poller\<close>

text \<open>A caller-supplied predicate: it may raise, and it may change the world.\<close>

type_synonym condition = "world \<Rightarrow> (exn + bool) \<times> world"

text \<open>The \<open>while\<close> loop of \<open>wait_for_condition\<close>.\<close>

partial_function (option) wait_loop ::
  "condition \<Rightarrow> int \<Rightarrow> int \<Rightarrow> string \<Rightarrow> int \<Rightarrow> world \<Rightarrow> ((exn + bool) \<times> world) option" where
  "wait_loop condition_func timeout poll_interval error_message start_time w =
     (if clock w - start_time < timeout then
        (case condition_func w of
           (Inl e, w1) \<Rightarrow> Some (Inl e, w1)
         | (Inr b, w1) \<Rightarrow>
             if b then Some (Inr True, w1)
             else (case time_sleep poll_interval w1 of
                     (Inl e, w2) \<Rightarrow> Some (Inl e, w2)
                   | (Inr u, w2) \<Rightarrow>
                       wait_loop condition_func timeout poll_interval error_message start_time w2))
      else Some (Inl (TimeoutError error_message), w))"

text \<open>
  \<open>TestHelpers.wait_for_condition\<close>, with its three defaulted parameters.
\<close>

definition wait_for_condition ::
  "settings \<Rightarrow> condition \<Rightarrow> int option \<Rightarrow> int option \<Rightarrow> string option \<Rightarrow> world
     \<Rightarrow> ((exn + bool) \<times> world) option" where
  "wait_for_condition cfg condition_func timeout poll_interval error_message w =
     wait_loop condition_func
       (case timeout of None \<Rightarrow> TIMEOUT cfg | Some t \<Rightarrow> t)
       (case poll_interval of None \<Rightarrow> POLL_INTERVAL cfg | Some p \<Rightarrow> p)
       (case error_message of None \<Rightarrow> ''Condition not met within timeout'' | Some m \<Rightarrow> m)
       (clock w) w"

text \<open>
  A predicate known only by what it does: its k-th call returns or raises
  \<open>fst (f k)\<close> after \<open>snd (f k)\<close> ticks.
\<close>

definition scripted :: "(nat \<Rightarrow> (exn + bool) \<times> nat) \<Rightarrow> condition" where
  "scripted f w =
     (fst (f (calls w)),
      w\<lparr>clock := clock w + int (snd (f (calls w))), calls := Suc (calls w),
        trace := trace w @ [Evaluated (calls w)]\<rparr>)"

text \<open>
  The shape every predicate of the scenario tests has: the whole body inside
  \<open>try\<close>, and a bare \<open>except\<close> that returns \<open>False\<close>.
\<close>

definition try_except_false :: "condition \<Rightarrow> condition" where
  "try_except_false body w =
     (case body w of
        (Inl e, w1) \<Rightarrow> (Inr False, w1)
      | (Inr b, w1) \<Rightarrow> (Inr b, w1))"

text \<open>
  The predicate \<open>project_ready\<close> of \<open>test_project_usability_after_import\<close>:
  the body \<open>project = get_project(id); return project.get('id') == id\<close>, and the
  predicate around it.
\<close>

definition project_ready_body :: "settings \<Rightarrow> env \<Rightarrow> client \<Rightarrow> string \<Rightarrow> condition" where
  "project_ready_body cfg ev c test_project_id w =
     (case get_project cfg ev c test_project_id w of
        (Inl e, w1) \<Rightarrow> (Inl e, w1)
      | (Inr project, w1) \<Rightarrow>
          (case dict_get project ''id'' JNull of
             Inl e \<Rightarrow> (Inl e, w1)
           | Inr v \<Rightarrow> (Inr (v = JStr test_project_id), w1)))"

definition project_ready :: "settings \<Rightarrow> env \<Rightarrow> client \<Rightarrow> string \<Rightarrow> condition" where
  "project_ready cfg ev c test_project_id =
     try_except_false (project_ready_body cfg ev c test_project_id)"

section \<open>What a request carries\<close>









section \<open>Vocabulary of the properties\<close>

text \<open>
  What the \<open>try\<close> body of \<open>_make_request\<close> yields on the k-th request the
  session ever sends: the exception of \<open>session.request\<close> or of
  \<open>raise_for_status\<close>, or the response.
\<close>

definition attempt_outcome :: "env \<Rightarrow> request \<Rightarrow> nat \<Rightarrow> exn + response" where
  "attempt_outcome ev req k =
     (case fst (session_request ev k req) of
        Inl e \<Rightarrow> Inl e
      | Inr resp \<Rightarrow> (case raise_for_status ev resp of Some e \<Rightarrow> Inl e | None \<Rightarrow> Inr resp))"

text \<open>
  When the k-th request fails with the message \<open>msg k req\<close>: the failure of the last
  of \<open>R\<close> attempts that start in world \<open>w\<close>.
\<close>

definition final_failure ::
  "(nat \<Rightarrow> request \<Rightarrow> string) \<Rightarrow> nat \<Rightarrow> world \<Rightarrow> client
     \<Rightarrow> string \<Rightarrow> string \<Rightarrow> json option \<Rightarrow> exn" where
  "final_failure msg R w c meth endpoint payload =
     RequestException (msg (sent w + (R - 1)) (request_for c meth endpoint payload))"

text \<open>A status payload whose \<open>state\<close> is \<open>finished\<close> or \<open>canceled\<close>.\<close>

definition is_terminal :: "json \<Rightarrow> bool" where
  "is_terminal build_info =
     (dict_get build_info ''state'' JNull = Inr (JStr ''finished'')
      \<or> dict_get build_info ''state'' JNull = Inr (JStr ''canceled''))"

text \<open>The list \<open>[{'name': k, 'value': v}, ...]\<close>, one entry per parameter.\<close>

definition property_entries :: "(string \<times> string) list \<Rightarrow> json" where
  "property_entries ps = JList (map (\<lambda>(k, v). JObj [(''name'', JStr k), (''value'', JStr v)]) ps)"

text \<open>
  An attempt that the retry loop takes as failed when \<open>raise_for_status\<close> is the
  library's: the transport raises a \<open>RequestException\<close>, or the status is 4xx or 5xx.
\<close>

definition attempt_failed :: "env \<Rightarrow> request \<Rightarrow> nat \<Rightarrow> bool" where
  "attempt_failed ev req k =
     (case fst (session_request ev k req) of
        Inl e \<Rightarrow> is_RequestException e
      | Inr resp \<Rightarrow> 400 \<le> status_code resp \<and> status_code resp < 600)"

text \<open>
  Polling a server that answers every request: the time that has passed when the poll
  with index \<open>n\<close> begins, counted from a first poll that is the \<open>s\<close>-th request of
  the session. Each earlier poll took the time of its request and one sleep of \<open>P\<close>.
\<close>

fun poll_start :: "env \<Rightarrow> request \<Rightarrow> int \<Rightarrow> nat \<Rightarrow> nat \<Rightarrow> int" where
  "poll_start ev req P s 0 = 0"
| "poll_start ev req P s (Suc n) =
     int (snd (session_request ev s req)) + P + poll_start ev req P (Suc s) n"

text \<open>
  One unsuccessful round of \<open>wait_for_condition\<close>: the world after the predicate has
  been evaluated and the poll interval slept.
\<close>

definition poll_round :: "condition \<Rightarrow> int \<Rightarrow> world \<Rightarrow> world" where
  "poll_round body P w = snd (time_sleep P (snd (body w)))"

section \<open>Concrete servers, settings and predicates\<close>

text \<open>
  \<open>raise_for_status\<close> as the \<open>requests\<close> library documents it: an
  \<open>HTTPError\<close> for a 4xx or 5xx status.
\<close>

definition requests_raise_for_status :: "response \<Rightarrow> exn option" where
  "requests_raise_for_status r =
     (if 400 \<le> status_code r \<and> status_code r < 600
      then Some (RequestException ''HTTPError'') else None)"

definition ok_response :: "json \<Rightarrow> response" where
  "ok_response j = \<lparr> status_code = 200, json_body = Inr j \<rparr>"

text \<open>A server that refuses the first connection, answers 503 next, and is up from then on.\<close>

definition flaky_server :: env where
  "flaky_server =
     \<lparr> session_request = (\<lambda>k req.
          if k = 0 then (Inl (RequestException ''ConnectionError''), 1)
          else if k = 1
            then (Inr \<lparr> status_code = 503, json_body = Inl (ValueError ''no JSON'') \<rparr>, 1)
          else (Inr (ok_response (JObj [])), 1)),
       raise_for_status = requests_raise_for_status,
       netrc_auth = (\<lambda>u. None) \<rparr>"

text \<open>A server that is never reachable.\<close>

definition dead_server :: env where
  "dead_server =
     \<lparr> session_request =
         (\<lambda>k req. (Inl (RequestException (''ConnectionError '' @ str_nat k)), 1)),
       raise_for_status = requests_raise_for_status,
       netrc_auth = (\<lambda>u. None) \<rparr>"

definition dead_server_message :: "nat \<Rightarrow> request \<Rightarrow> string" where
  "dead_server_message k req = ''ConnectionError '' @ str_nat k"

text \<open>A server whose every answer is a dict without any of the listing keys.\<close>

definition empty_listing_server :: env where
  "empty_listing_server =
     \<lparr> session_request = (\<lambda>k req. (Inr (ok_response (JObj [(''count'', JNum 0)])), 1)),
       raise_for_status = requests_raise_for_status,
       netrc_auth = (\<lambda>u. None) \<rparr>"

text \<open>A build that is queued, then running, then finished.\<close>

definition build_statuses :: "nat \<Rightarrow> (string \<times> json) list" where
  "build_statuses k =
     [(''id'', JNum 7),
      (''state'', JStr (if k = 0 then ''queued'' else if k = 1 then ''running'' else ''finished''))]"

definition build_server :: env where
  "build_server =
     \<lparr> session_request = (\<lambda>k req. (Inr (ok_response (JObj (build_statuses k))), 1)),
       raise_for_status = requests_raise_for_status,
       netrc_auth = (\<lambda>u. None) \<rparr>"


text \<open>Three predicates: true at once, true from the third call on, never true.\<close>

definition always_true :: "nat \<Rightarrow> (exn + bool) \<times> nat" where
  "always_true k = (Inr True, 0)"


definition never_true :: "nat \<Rightarrow> (exn + bool) \<times> nat" where
  "never_true k = (Inr False, 0)"

text \<open>A server that answers 304 twice before it answers 200.\<close>

definition not_modified_server :: env where
  "not_modified_server =
     \<lparr> session_request = (\<lambda>k req.
          if k < 2 then (Inr \<lparr> status_code = 304, json_body = Inl (ValueError ''no JSON'') \<rparr>, 1)
          else (Inr (ok_response (JObj [])), 1)),
       raise_for_status = requests_raise_for_status,
       netrc_auth = (\<lambda>u. None) \<rparr>"

text \<open>
  A server that refuses the first four connections and then knows the project
  \<open>P1\<close>.
\<close>

definition waking_server :: env where
  "waking_server =
     \<lparr> session_request = (\<lambda>k req.
          if k < 4 then (Inl (RequestException (''ConnectionError '' @ str_nat k)), 1)
          else (Inr (ok_response (JObj [(''id'', JStr ''P1''), (''name'', JStr ''Test Project P1'')])), 1)),
       raise_for_status = requests_raise_for_status,
       netrc_auth = (\<lambda>u. None) \<rparr>"


text \<open>A predicate that raises at its first call and is true from the second on.\<close>

definition raises_then_true :: "nat \<Rightarrow> (exn + bool) \<times> nat" where
  "raises_then_true k =
     (if k = 0 then Inl (RequestException ''ConnectionError'') else Inr True, 1)"

section \<open>Facts about the world and the retry loop\<close>

lemma time_sleep_simps:
  "0 \<le> d \<Longrightarrow> clock (snd (time_sleep d w)) = clock w + d"
  "calls (snd (time_sleep d w)) = calls w"
  "sent (snd (time_sleep d w)) = sent w"
  "0 \<le> d \<Longrightarrow> trace (snd (time_sleep d w)) = trace w @ [Slept d]"
  by (simp_all add: time_sleep_def)

lemma try_request_fst: "fst (try_request ev req w) = attempt_outcome ev req (sent w)"
  by (simp add: try_request_def attempt_outcome_def Let_def
        split: prod.splits sum.splits option.splits)

lemma try_request_clock_eq:
  "clock (snd (try_request ev req w)) = clock w + int (snd (session_request ev (sent w) req))"
  by (simp add: try_request_def Let_def split: prod.splits sum.splits option.splits)

text \<open>Under the library's \<open>raise_for_status\<close> a failed attempt is one whose outcome is
  a \<open>RequestException\<close>.\<close>

lemma attempt_failed_outcome:
  assumes "raise_for_status ev = requests_raise_for_status"
  shows "attempt_failed ev req k \<longleftrightarrow> (\<exists>m. attempt_outcome ev req k = Inl (RequestException m))"
proof (cases "fst (session_request ev k req)")
  case (Inl e)
  then show ?thesis
    by (cases e) (simp_all add: attempt_failed_def attempt_outcome_def)
next
  case (Inr resp)
  then show ?thesis
    using assms by (simp add: attempt_failed_def attempt_outcome_def requests_raise_for_status_def)
qed

lemma try_request_sent: "sent (snd (try_request ev req w)) = Suc (sent w)"
  by (simp add: try_request_def Let_def split: prod.splits sum.splits option.splits)

lemma try_request_trace: "trace (snd (try_request ev req w)) = trace w @ [Sent req]"
  by (simp add: try_request_def Let_def split: prod.splits sum.splits option.splits)

lemma try_request_clock: "clock w \<le> clock (snd (try_request ev req w))"
  by (simp add: try_request_def Let_def split: prod.splits sum.splits option.splits)

text \<open>
  Whatever relation between worlds a request and a sleep both respect, the whole retry
  loop respects: induction on the attempts that remain.
\<close>

lemma make_request_from_rel:
  assumes refl: "\<And>w. R w w"
    and trans: "\<And>a b c. R a b \<Longrightarrow> R b c \<Longrightarrow> R a c"
    and tr: "\<And>w. R w (snd (try_request ev req w))"
    and sl: "\<And>w. R w (snd (time_sleep (POLL_INTERVAL cfg) w))"
  shows "R w (snd (make_request_from cfg ev req a w))"
proof (induction "nat (MAX_RETRIES cfg - int a)" arbitrary: a w)
  case 0
  then have "\<not> int a < MAX_RETRIES cfg" by simp
  then show ?case by (subst make_request_from.simps) (simp add: refl)
next
  case (Suc n)
  then have lt: "int a < MAX_RETRIES cfg" by linarith
  obtain r w1 where t: "try_request ev req w = (r, w1)" by (cases "try_request ev req w")
  have r1: "R w w1" using tr[of w] t by simp
  obtain s w2 where s: "time_sleep (POLL_INTERVAL cfg) w1 = (s, w2)"
    by (cases "time_sleep (POLL_INTERVAL cfg) w1")
  have r2: "R w w2" using sl[of w1] s r1 trans by fastforce
  have "n = nat (MAX_RETRIES cfg - int (Suc a))" using Suc.hyps(2) by linarith
  then have "R w2 (snd (make_request_from cfg ev req (Suc a) w2))" by (rule Suc.hyps(1))
  then have r3: "R w (snd (make_request_from cfg ev req (Suc a) w2))" using r2 trans by blast
  show ?case
    using lt t s r1 r2 r3
    by (subst make_request_from.simps) (simp split: sum.splits)
qed

lemma make_request_from_clock: "clock w \<le> clock (snd (make_request_from cfg ev req a w))"
  by (rule make_request_from_rel[where R = "\<lambda>w w'. clock w \<le> clock w'"])
     (auto simp: try_request_clock time_sleep_def)

lemma make_request_from_trace:
  "\<exists>es. trace (snd (make_request_from cfg ev req a w)) = trace w @ es
      \<and> set es \<subseteq> {Sent req, Slept (POLL_INTERVAL cfg)}"
  by (rule make_request_from_rel[where R = "\<lambda>w w'. \<exists>es. trace w' = trace w @ es
      \<and> set es \<subseteq> {Sent req, Slept (POLL_INTERVAL cfg)}"])
     (auto simp: try_request_trace time_sleep_def)

text \<open>An attempt that succeeds ends the loop.\<close>

lemma make_request_from_success:
  assumes "int a < MAX_RETRIES cfg" and "attempt_outcome ev req (sent w) = Inr resp"
  shows "make_request_from cfg ev req a w = (Inr (Some resp), snd (try_request ev req w))"
proof -
  obtain r w1 where t: "try_request ev req w = (r, w1)" by (cases "try_request ev req w")
  have "r = Inr resp" using try_request_fst[of ev req w] t assms(2) by simp
  then show ?thesis using assms(1) t by (subst make_request_from.simps) simp
qed

text \<open>
  \<open>n\<close> failing attempts, none of them the last of the budget: each is followed by one
  sleep of the poll interval, and the loop goes on with attempt \<open>a + n\<close>.
\<close>

lemma make_request_from_retries:
  assumes "0 \<le> POLL_INTERVAL cfg"
    and "\<forall>k<n. \<exists>m. attempt_outcome ev req (sent w + k) = Inl (RequestException m)"
    and "int (a + n) < MAX_RETRIES cfg"
  shows "\<exists>w'. make_request_from cfg ev req a w = make_request_from cfg ev req (a + n) w'
           \<and> sent w' = sent w + n
           \<and> trace w' = trace w @ concat (replicate n [Sent req, Slept (POLL_INTERVAL cfg)])"
  using assms
proof (induction n arbitrary: a w)
  case 0
  then show ?case by auto
next
  case (Suc n)
  obtain m where m: "attempt_outcome ev req (sent w) = Inl (RequestException m)"
    using Suc.prems(2) by force
  obtain r w1 where t: "try_request ev req w = (r, w1)" by (cases "try_request ev req w")
  have r: "r = Inl (RequestException m)" using try_request_fst[of ev req w] t m by simp
  have s1: "sent w1 = Suc (sent w)" using try_request_sent[of ev req w] t by simp
  have t1: "trace w1 = trace w @ [Sent req]" using try_request_trace[of ev req w] t by simp
  define w2 where "w2 = snd (time_sleep (POLL_INTERVAL cfg) w1)"
  have sl: "time_sleep (POLL_INTERVAL cfg) w1 = (Inr (), w2)"
    using Suc.prems(1) by (simp add: time_sleep_def w2_def)
  have s2: "sent w2 = Suc (sent w)" using s1 Suc.prems(1) by (simp add: w2_def time_sleep_def)
  have t2: "trace w2 = trace w @ [Sent req, Slept (POLL_INTERVAL cfg)]"
    using t1 Suc.prems(1) by (simp add: w2_def time_sleep_def)
  have step: "make_request_from cfg ev req a w = make_request_from cfg ev req (Suc a) w2"
    using Suc.prems(3) t r sl by (subst make_request_from.simps) simp
  have "\<forall>k<n. \<exists>m. attempt_outcome ev req (sent w2 + k) = Inl (RequestException m)"
    using Suc.prems(2) s2 by (metis Suc_less_eq add_Suc_shift)
  moreover have "int (Suc a + n) < MAX_RETRIES cfg" using Suc.prems(3) by simp
  ultimately obtain w' where
    "make_request_from cfg ev req (Suc a) w2 = make_request_from cfg ev req (Suc a + n) w'"
    "sent w' = sent w2 + n"
    "trace w' = trace w2 @ concat (replicate n [Sent req, Slept (POLL_INTERVAL cfg)])"
    using Suc.IH[of w2 "Suc a"] Suc.prems(1) by blast
  then show ?case using step s2 t2 by auto
qed

text \<open>The last attempt of the budget returns or raises, whatever it meets.\<close>

lemma make_request_from_last_attempt:
  assumes "MAX_RETRIES cfg = int (Suc a)"
  shows "fst (make_request_from cfg ev req a w) =
           (case attempt_outcome ev req (sent w) of Inl e \<Rightarrow> Inl e | Inr resp \<Rightarrow> Inr (Some resp))"
    and "sent (snd (make_request_from cfg ev req a w)) = Suc (sent w)"
    and "trace (snd (make_request_from cfg ev req a w)) = trace w @ [Sent req]"
proof -
  obtain r w1 where t: "try_request ev req w = (r, w1)" by (cases "try_request ev req w")
  have r: "r = attempt_outcome ev req (sent w)" using try_request_fst[of ev req w] t by simp
  have s1: "sent w1 = Suc (sent w)" using try_request_sent[of ev req w] t by simp
  have t1: "trace w1 = trace w @ [Sent req]" using try_request_trace[of ev req w] t by simp
  have eq: "make_request_from cfg ev req a w =
        (case r of Inl e \<Rightarrow> (Inl e, w1) | Inr resp \<Rightarrow> (Inr (Some resp), w1))"
    using assms t by (subst make_request_from.simps) (simp split: sum.splits)
  show "fst (make_request_from cfg ev req a w) =
           (case attempt_outcome ev req (sent w) of Inl e \<Rightarrow> Inl e | Inr resp \<Rightarrow> Inr (Some resp))"
    using eq r by (simp split: sum.splits)
  show "sent (snd (make_request_from cfg ev req a w)) = Suc (sent w)"
    using eq s1 by (simp split: sum.splits)
  show "trace (snd (make_request_from cfg ev req a w)) = trace w @ [Sent req]"
    using eq t1 by (simp split: sum.splits)
qed

lemma make_request_from_budget:
  assumes R: "MAX_RETRIES cfg = int (Suc n)" and D: "0 \<le> POLL_INTERVAL cfg"
    and fails: "\<forall>k<n. \<exists>m. attempt_outcome ev req (sent w + k) = Inl (RequestException m)"
  shows "fst (make_request_from cfg ev req 0 w) =
           (case attempt_outcome ev req (sent w + n) of
              Inl e \<Rightarrow> Inl e | Inr resp \<Rightarrow> Inr (Some resp))"
    and "sent (snd (make_request_from cfg ev req 0 w)) = sent w + Suc n"
    and "trace (snd (make_request_from cfg ev req 0 w)) =
           trace w @ concat (replicate n [Sent req, Slept (POLL_INTERVAL cfg)]) @ [Sent req]"
proof -
  have "int (0 + n) < MAX_RETRIES cfg" using R by simp
  then obtain w' where w':
    "make_request_from cfg ev req 0 w = make_request_from cfg ev req n w'"
    "sent w' = sent w + n"
    "trace w' = trace w @ concat (replicate n [Sent req, Slept (POLL_INTERVAL cfg)])"
    using make_request_from_retries[OF D fails, of 0] by auto
  show "fst (make_request_from cfg ev req 0 w) =
           (case attempt_outcome ev req (sent w + n) of
              Inl e \<Rightarrow> Inl e | Inr resp \<Rightarrow> Inr (Some resp))"
    using w' make_request_from_last_attempt(1)[OF R, of ev req w'] by simp
  show "sent (snd (make_request_from cfg ev req 0 w)) = sent w + Suc n"
    using w' make_request_from_last_attempt(2)[OF R, of ev req w'] by simp
  show "trace (snd (make_request_from cfg ev req 0 w)) =
           trace w @ concat (replicate n [Sent req, Slept (POLL_INTERVAL cfg)]) @ [Sent req]"
    using w' make_request_from_last_attempt(3)[OF R, of ev req w'] by simp
qed

lemma make_request_all_fail:
  assumes "MAX_RETRIES cfg = int R" and "1 \<le> R" and "0 \<le> POLL_INTERVAL cfg"
    and "\<forall>k req. attempt_outcome ev req k = Inl (RequestException (msg k req))"
  shows "fst (make_request cfg ev c meth endpoint payload w) =
           Inl (final_failure msg R w c meth endpoint payload)"
proof -
  obtain n where n: "R = Suc n" using assms(2) by (cases R) auto
  have R': "MAX_RETRIES cfg = int (Suc n)" using assms(1) n by simp
  have f: "\<forall>k<n. \<exists>m. attempt_outcome ev (request_for c meth endpoint payload) (sent w + k)
            = Inl (RequestException m)" using assms(4) by simp
  show ?thesis
    unfolding make_request_def final_failure_def
    using make_request_from_budget(1)[OF R' assms(3) f] assms(4) n by simp
qed

section \<open>Facts about the wrappers\<close>

lemma returning_json_fst:
  "fst (returning_json rw) = (case fst rw of Inl e \<Rightarrow> Inl e | Inr resp \<Rightarrow> response_json resp)"
  by (simp add: returning_json_def split: prod.splits sum.splits)

lemma returning_json_snd: "snd (returning_json rw) = snd rw"
  by (simp add: returning_json_def split: prod.splits sum.splits)

lemma wrapper_fst:
  "fst (get_projects cfg ev c w) =
     (case fst (make_request cfg ev c ''GET'' ''/projects'' None w) of
        Inl e \<Rightarrow> Inl e
      | Inr resp \<Rightarrow> (case response_json resp of
                      Inl e \<Rightarrow> Inl e | Inr j \<Rightarrow> dict_get j ''project'' (JList [])))"
  "fst (get_build_configurations cfg ev c pid w) =
     (case fst (make_request cfg ev c ''GET'' (''/buildTypes?locator=project:'' @ pid) None w) of
        Inl e \<Rightarrow> Inl e
      | Inr resp \<Rightarrow> (case response_json resp of
                      Inl e \<Rightarrow> Inl e | Inr j \<Rightarrow> dict_get j ''buildType'' JNull))"
  "fst (get_vcs_roots cfg ev c None w) =
     (case fst (make_request cfg ev c ''GET'' ''/vcs-roots'' None w) of
        Inl e \<Rightarrow> Inl e
      | Inr resp \<Rightarrow> (case response_json resp of
                      Inl e \<Rightarrow> Inl e | Inr j \<Rightarrow> dict_get j ''vcs-root'' (JList [])))"
  "fst (get_vcs_roots cfg ev c (Some p) w) =
     (case fst (make_request cfg ev c ''GET''
                 (if p = [] then ''/vcs-roots'' else ''/vcs-roots?locator=project:'' @ p) None w) of
        Inl e \<Rightarrow> Inl e
      | Inr resp \<Rightarrow> (case response_json resp of
                      Inl e \<Rightarrow> Inl e | Inr j \<Rightarrow> dict_get j ''vcs-root'' (JList [])))"
  "fst (delete_project cfg ev c pid w) =
     (case fst (make_request cfg ev c ''DELETE'' (''/projects/'' @ pid) None w) of
        Inl e \<Rightarrow> if is_RequestException e then Inr False else Inl e
      | Inr resp \<Rightarrow> Inr True)"
  by (simp_all add: get_projects_def get_build_configurations_def get_vcs_roots_def
        delete_project_def returning_json_def split: prod.splits sum.splits)

lemma get_build_status_ok:
  assumes "1 \<le> MAX_RETRIES cfg"
    and "attempt_outcome ev (request_for c ''GET'' (''/builds/'' @ build_id) None) (sent w) = Inr resp"
    and "json_body resp = Inr j"
  shows "get_build_status cfg ev c build_id w =
           (Inr j, snd (try_request ev (request_for c ''GET'' (''/builds/'' @ build_id) None) w))"
  using assms make_request_from_success[of 0 cfg ev _ w resp]
  by (simp add: get_build_status_def make_request_def returning_json_def response_json_def)

lemma build_data_shape:
  "\<exists>kvs. build_data bid props = JObj kvs
     \<and> map_of kvs ''buildType'' = Some (JObj [(''id'', JStr bid)])
     \<and> map_of kvs ''properties'' =
          (case props of
             None \<Rightarrow> None
           | Some ps \<Rightarrow> if ps = [] then None
                        else Some (JObj [(''property'', property_entries ps)]))"
  by (simp add: build_data_def property_entries_def split: option.splits)

text \<open>
  Each wrapper leaves the world as its one \<open>_make_request\<close> call leaves it, and what
  it returns is a function of what that call returns.
\<close>

lemma wrapper_snd:
  "snd (get_projects cfg ev c w) = snd (make_request cfg ev c ''GET'' ''/projects'' None w)"
  "snd (get_project cfg ev c pid w)
     = snd (make_request cfg ev c ''GET'' (''/projects/'' @ pid) None w)"
  "snd (create_project cfg ev c pdata w)
     = snd (make_request cfg ev c ''POST'' ''/projects'' (Some pdata) w)"
  "snd (delete_project cfg ev c pid w)
     = snd (make_request cfg ev c ''DELETE'' (''/projects/'' @ pid) None w)"
  "snd (get_versioned_settings cfg ev c pid w)
     = snd (make_request cfg ev c ''GET''
              (''/projects/id:'' @ pid @ ''/versionedSettings/status'') None w)"
  "snd (enable_versioned_settings cfg ev c pid vs w)
     = snd (make_request cfg ev c ''PUT''
              (''/projects/'' @ pid @ ''/versionedSettings/config'') (Some vs) w)"
  "snd (trigger_versioned_settings_sync cfg ev c pid w)
     = snd (make_request cfg ev c ''POST''
              (''/projects/'' @ pid @ ''/versionedSettings/synchronize'') None w)"
  "snd (get_build_configurations cfg ev c pid w)
     = snd (make_request cfg ev c ''GET'' (''/buildTypes?locator=project:'' @ pid) None w)"
  "snd (trigger_build cfg ev c bid props w)
     = snd (make_request cfg ev c ''POST'' ''/buildQueue'' (Some (build_data bid props)) w)"
  "snd (get_build_status cfg ev c bid w)
     = snd (make_request cfg ev c ''GET'' (''/builds/'' @ bid) None w)"
  "snd (get_vcs_roots cfg ev c vp w)
     = snd (make_request cfg ev c ''GET''
              (case vp of None \<Rightarrow> ''/vcs-roots''
               | Some p \<Rightarrow> if p = [] then ''/vcs-roots''
                          else ''/vcs-roots?locator=project:'' @ p) None w)"
  "snd (create_vcs_root cfg ev c vdata w)
     = snd (make_request cfg ev c ''POST'' ''/vcs-roots'' (Some vdata) w)"
  by (simp_all add: get_projects_def get_project_def create_project_def delete_project_def
        get_versioned_settings_def enable_versioned_settings_def
        trigger_versioned_settings_sync_def get_build_configurations_def trigger_build_def
        get_build_status_def get_vcs_roots_def create_vcs_root_def returning_json_def Let_def
        split: prod.splits sum.splits option.splits)

lemma wrapper_raises:
  "fst (make_request cfg ev c ''GET'' ''/projects'' None w) = Inl e
     \<Longrightarrow> fst (get_projects cfg ev c w) = Inl e"
  "fst (make_request cfg ev c ''GET'' (''/projects/'' @ pid) None w) = Inl e
     \<Longrightarrow> fst (get_project cfg ev c pid w) = Inl e"
  "fst (make_request cfg ev c ''POST'' ''/projects'' (Some pdata) w) = Inl e
     \<Longrightarrow> fst (create_project cfg ev c pdata w) = Inl e"
  "fst (make_request cfg ev c ''GET''
          (''/projects/id:'' @ pid @ ''/versionedSettings/status'') None w) = Inl e
     \<Longrightarrow> fst (get_versioned_settings cfg ev c pid w) = Inl e"
  "fst (make_request cfg ev c ''PUT''
          (''/projects/'' @ pid @ ''/versionedSettings/config'') (Some vs) w) = Inl e
     \<Longrightarrow> fst (enable_versioned_settings cfg ev c pid vs w) = Inl e"
  "fst (make_request cfg ev c ''POST''
          (''/projects/'' @ pid @ ''/versionedSettings/synchronize'') None w) = Inl e
     \<Longrightarrow> fst (trigger_versioned_settings_sync cfg ev c pid w) = Inl e"
  "fst (make_request cfg ev c ''GET'' (''/buildTypes?locator=project:'' @ pid) None w) = Inl e
     \<Longrightarrow> fst (get_build_configurations cfg ev c pid w) = Inl e"
  "fst (make_request cfg ev c ''POST'' ''/buildQueue'' (Some (build_data bid props)) w) = Inl e
     \<Longrightarrow> fst (trigger_build cfg ev c bid props w) = Inl e"
  "fst (make_request cfg ev c ''GET'' (''/builds/'' @ bid) None w) = Inl e
     \<Longrightarrow> fst (get_build_status cfg ev c bid w) = Inl e"
  "fst (make_request cfg ev c ''GET''
          (case vp of None \<Rightarrow> ''/vcs-roots''
           | Some p \<Rightarrow> if p = [] then ''/vcs-roots''
                      else ''/vcs-roots?locator=project:'' @ p) None w) = Inl e
     \<Longrightarrow> fst (get_vcs_roots cfg ev c vp w) = Inl e"
  "fst (make_request cfg ev c ''POST'' ''/vcs-roots'' (Some vdata) w) = Inl e
     \<Longrightarrow> fst (create_vcs_root cfg ev c vdata w) = Inl e"
  by (auto simp: get_projects_def get_project_def create_project_def
        get_versioned_settings_def enable_versioned_settings_def
        trigger_versioned_settings_sync_def get_build_configurations_def trigger_build_def
        get_build_status_def get_vcs_roots_def create_vcs_root_def returning_json_def Let_def
        split: prod.splits sum.splits option.splits)

text \<open>With a budget of at least one attempt the request goes out, whatever it is.\<close>

lemma make_request_sends:
  assumes "1 \<le> MAX_RETRIES cfg"
  shows "\<exists>es. trace (snd (make_request cfg ev c meth endpoint payload w))
               = trace w @ Sent (request_for c meth endpoint payload) # es"
proof -
  let ?req = "request_for c meth endpoint payload"
  have lt: "int 0 < MAX_RETRIES cfg" using assms by simp
  obtain r w1 where t: "try_request ev ?req w = (r, w1)" by (cases "try_request ev ?req w")
  have t1: "trace w1 = trace w @ [Sent ?req]" using try_request_trace[of ev ?req w] t by simp
  obtain s w2 where s: "time_sleep (POLL_INTERVAL cfg) w1 = (s, w2)"
    by (cases "time_sleep (POLL_INTERVAL cfg) w1")
  have p2: "\<exists>es'. trace w2 = trace w1 @ es'"
    using s by (auto simp: time_sleep_def split: if_splits)
  obtain es2 where "trace (snd (make_request_from cfg ev ?req (Suc 0) w2)) = trace w2 @ es2"
    using make_request_from_trace by blast
  then have p3: "\<exists>es'. trace (snd (make_request_from cfg ev ?req (Suc 0) w2)) = trace w1 @ es'"
    using p2 by auto
  have "\<exists>es'. trace (snd (make_request_from cfg ev ?req 0 w)) = trace w1 @ es'"
    using lt t s p2 p3 by (subst make_request_from.simps) (auto split: sum.splits)
  then show ?thesis using t1 by (auto simp: make_request_def)
qed

section \<open>Facts about the polling loops\<close>

lemma scripted_simps:
  "fst (scripted f w) = fst (f (calls w))"
  "clock (snd (scripted f w)) = clock w + int (snd (f (calls w)))"
  "calls (snd (scripted f w)) = Suc (calls w)"
  "sent (snd (scripted f w)) = sent w"
  "trace (snd (scripted f w)) = trace w @ [Evaluated (calls w)]"
  by (simp_all add: scripted_def)

lemma scripted_progress:
  assumes "P \<noteq> 0 \<or> (\<forall>k. 0 < snd (f k))" and "0 \<le> P"
  shows "clock w < clock (snd (scripted f w)) + P"
  using assms by (auto simp: scripted_simps intro: add_strict_increasing2 add_pos_nonneg)

text \<open>
  A total-correctness rule for the loop of \<open>wait_for_condition\<close>. When every round
  moves the clock, the loop returns, and a relation \<open>Q\<close> between the world at a loop
  head, the outcome and the final world holds as soon as it holds at each of the loop's
  four exits and is carried backwards over one round.
\<close>

lemma wait_loop_rule:
  assumes prog: "\<And>w. 0 \<le> P \<Longrightarrow> clock w < clock (snd (cond w)) + P"
    and timeout_case: "\<And>w. T \<le> clock w - s \<Longrightarrow> Q w (Inl (TimeoutError msg)) w"
    and raise_case:
      "\<And>w e. clock w - s < T \<Longrightarrow> fst (cond w) = Inl e \<Longrightarrow> Q w (Inl e) (snd (cond w))"
    and true_case:
      "\<And>w. clock w - s < T \<Longrightarrow> fst (cond w) = Inr True \<Longrightarrow> Q w (Inr True) (snd (cond w))"
    and sleep_raise_case:
      "\<And>w. clock w - s < T \<Longrightarrow> fst (cond w) = Inr False \<Longrightarrow> P < 0
         \<Longrightarrow> Q w (Inl (ValueError ''sleep length must be non-negative'')) (snd (cond w))"
    and step_case:
      "\<And>w r w'. clock w - s < T \<Longrightarrow> fst (cond w) = Inr False \<Longrightarrow> 0 \<le> P
         \<Longrightarrow> Q (snd (time_sleep P (snd (cond w)))) r w' \<Longrightarrow> Q w r w'"
  shows "\<exists>r w'. wait_loop cond T P msg s w = Some (r, w') \<and> Q w r w'"
proof (induction "nat (T - (clock w - s))" arbitrary: w rule: less_induct)
  case less
  show ?case
  proof (cases "clock w - s < T")
    case False
    then have "wait_loop cond T P msg s w = Some (Inl (TimeoutError msg), w)"
      by (subst wait_loop.simps) simp
    moreover have "Q w (Inl (TimeoutError msg)) w" using False by (intro timeout_case) simp
    ultimately show ?thesis by blast
  next
    case inside: True
    obtain r1 w1 where c: "cond w = (r1, w1)" by (cases "cond w")
    show ?thesis
    proof (cases r1)
      case (Inl e)
      then have "wait_loop cond T P msg s w = Some (Inl e, w1)"
        using inside c by (subst wait_loop.simps) simp
      moreover have "Q w (Inl e) w1" using raise_case[OF inside, of e] c Inl by simp
      ultimately show ?thesis by blast
    next
      case (Inr b)
      show ?thesis
      proof (cases b)
        case True
        then have "wait_loop cond T P msg s w = Some (Inr True, w1)"
          using inside c Inr by (subst wait_loop.simps) simp
        moreover have "Q w (Inr True) w1" using true_case[OF inside] c Inr True by simp
        ultimately show ?thesis by blast
      next
        case False
        have f: "fst (cond w) = Inr False" using c Inr False by simp
        show ?thesis
        proof (cases "P < 0")
          case True
          then have "wait_loop cond T P msg s w =
                       Some (Inl (ValueError ''sleep length must be non-negative''), w1)"
            using inside c Inr False
            by (subst wait_loop.simps) (simp add: time_sleep_def)
          moreover have "Q w (Inl (ValueError ''sleep length must be non-negative'')) w1"
            using sleep_raise_case[OF inside f True] c by simp
          ultimately show ?thesis by blast
        next
          case nonneg: False
          define w2 where "w2 = snd (time_sleep P w1)"
          have sl: "time_sleep P w1 = (Inr (), w2)"
            using nonneg by (simp add: w2_def time_sleep_def)
          have "clock w2 = clock w1 + P" using nonneg by (simp add: w2_def time_sleep_def)
          moreover have "clock w < clock w1 + P" using prog[of w] nonneg c by simp
          ultimately have "nat (T - (clock w2 - s)) < nat (T - (clock w - s))"
            using inside by linarith
          then obtain r w' where rw: "wait_loop cond T P msg s w2 = Some (r, w')" "Q w2 r w'"
            using less.hyps[of w2] by blast
          have "wait_loop cond T P msg s w = wait_loop cond T P msg s w2"
            using inside c Inr False sl by (subst wait_loop.simps) simp
          moreover have "Q w r w'"
            using step_case[OF inside f, of r w'] nonneg rw(2) c by (simp add: w2_def)
          ultimately show ?thesis using rw(1) by auto
        qed
      qed
    qed
  qed
qed

lemma wait_loop_true_at_once:
  assumes "clock w - s < T" and "fst (f (calls w)) = Inr True"
  shows "wait_loop (scripted f) T P msg s w = Some (Inr True, snd (scripted f w))"
  using assms by (subst wait_loop.simps) (simp add: scripted_def)

text \<open>
  The loop has no handler of its own: an exception that leaves the predicate leaves
  the wait.
\<close>

lemma wait_loop_propagates:
  assumes "clock w - s < T" and "fst (cond w) = Inl e"
  shows "wait_loop cond T P msg s w = Some (Inl e, snd (cond w))"
proof -
  obtain r1 w1 where c: "cond w = (r1, w1)" by (cases "cond w")
  then have "r1 = Inl e" using assms(2) by simp
  then show ?thesis using assms(1) c by (subst wait_loop.simps) simp
qed

lemma wait_loop_deadline_passed:
  assumes "T \<le> clock w - s"
  shows "wait_loop cond T P msg s w = Some (Inl (TimeoutError msg), w)"
  using assms by (subst wait_loop.simps) simp

text \<open>
  The evaluation with index \<open>j\<close> (from 0) starts no earlier than \<open>j * P\<close> after the
  loop head it is counted from, and it starts before the deadline.
\<close>

lemma wait_loop_evaluations:
  assumes "0 < P"
  shows "\<exists>r w'. wait_loop (scripted f) T P msg s w = Some (r, w')
           \<and> calls w \<le> calls w'
           \<and> (calls w' = calls w
               \<or> clock w - s + (int (calls w' - calls w) - 1) * P < T)"
proof (rule wait_loop_rule[where Q = "\<lambda>w r w'. calls w \<le> calls w'
           \<and> (calls w' = calls w \<or> clock w - s + (int (calls w' - calls w) - 1) * P < T)"])
  fix w :: world
  show "clock w < clock (snd (scripted f w)) + P" using assms by (simp add: scripted_simps)
next
  fix w r w'
  assume lt: "clock w - s < T" and nn: "0 \<le> P"
    and ih: "calls (snd (time_sleep P (snd (scripted f w)))) \<le> calls w'
       \<and> (calls w' = calls (snd (time_sleep P (snd (scripted f w))))
           \<or> clock (snd (time_sleep P (snd (scripted f w)))) - s
               + (int (calls w' - calls (snd (time_sleep P (snd (scripted f w))))) - 1) * P < T)"
  have c2: "calls (snd (time_sleep P (snd (scripted f w)))) = Suc (calls w)"
    by (simp add: scripted_simps time_sleep_simps)
  have k2: "clock (snd (time_sleep P (snd (scripted f w)))) = clock w + int (snd (f (calls w))) + P"
    using nn by (simp add: scripted_simps time_sleep_simps)
  from ih have le: "Suc (calls w) \<le> calls w'" using c2 by simp
  from ih consider "calls w' = Suc (calls w)"
    | "clock w + int (snd (f (calls w))) + P - s + (int (calls w' - Suc (calls w)) - 1) * P < T"
    using c2 k2 by auto
  then have "clock w - s + (int (calls w' - calls w) - 1) * P < T"
  proof cases
    case 1
    then show ?thesis using lt by simp
  next
    case 2
    define m where "m = int (calls w' - Suc (calls w))"
    have m1: "int (calls w' - calls w) - 1 = m" using le by (simp add: m_def)
    have "(m - 1) * P + P = m * P" by (simp add: algebra_simps)
    then have "clock w - s + m * P
        \<le> clock w + int (snd (f (calls w))) + P - s + (m - 1) * P"
      by linarith
    then show ?thesis using 2 unfolding m1 m_def[symmetric] by linarith
  qed
  then show "calls w \<le> calls w'
       \<and> (calls w' = calls w \<or> clock w - s + (int (calls w' - calls w) - 1) * P < T)"
    using le by simp
qed (simp_all add: scripted_simps)

lemma evaluations_bound:
  assumes "0 < P" and "(int n - 1) * P < T" and "0 < n"
  shows "int n \<le> \<lceil>real_of_int T / real_of_int P\<rceil>"
proof -
  have "real_of_int ((int n - 1) * P) < real_of_int T" using assms(2) by linarith
  then have "real_of_int (int n - 1) * real_of_int P < real_of_int T" by simp
  then have "real_of_int (int n - 1) < real_of_int T / real_of_int P"
    using assms(1) by (simp add: pos_less_divide_eq)
  then have "int n - 1 < \<lceil>real_of_int T / real_of_int P\<rceil>" by linarith
  then show ?thesis by simp
qed


text \<open>Inside the window the first thing the loop does to the world is an evaluation.\<close>

lemma wait_loop_first_event:
  assumes prog: "P \<noteq> 0 \<or> (\<forall>k. 0 < snd (f k))"
  shows "\<exists>r w'. wait_loop (scripted f) T P msg s w = Some (r, w')
           \<and> (\<exists>es. trace w' = trace w @ es
                 \<and> (clock w - s < T \<longrightarrow> es \<noteq> [] \<and> hd es = Evaluated (calls w)))"
proof (rule wait_loop_rule[where Q = "\<lambda>w r w'. \<exists>es. trace w' = trace w @ es
                 \<and> (clock w - s < T \<longrightarrow> es \<noteq> [] \<and> hd es = Evaluated (calls w))"])
  fix w :: world
  assume "0 \<le> P"
  then show "clock w < clock (snd (scripted f w)) + P"
    using scripted_progress[of P f w] prog by auto
next
  fix w r w'
  assume nn: "0 \<le> P"
    and ih: "\<exists>es. trace w' = trace (snd (time_sleep P (snd (scripted f w)))) @ es
       \<and> (clock (snd (time_sleep P (snd (scripted f w)))) - s < T \<longrightarrow>
            es \<noteq> [] \<and> hd es = Evaluated (calls (snd (time_sleep P (snd (scripted f w))))))"
  then obtain es where "trace w' = trace w @ [Evaluated (calls w), Slept P] @ es"
    by (auto simp: scripted_simps time_sleep_simps)
  then show "\<exists>es. trace w' = trace w @ es
       \<and> (clock w - s < T \<longrightarrow> es \<noteq> [] \<and> hd es = Evaluated (calls w))"
    by simp
qed (simp_all add: scripted_simps)

text \<open>The predicates of the scenario tests never raise and never turn the clock back.\<close>

lemma try_except_false_bool: "\<exists>b. fst (try_except_false body w) = Inr b"
  by (auto simp: try_except_false_def split: prod.splits sum.splits)

lemma try_except_false_snd: "snd (try_except_false body w) = snd (body w)"
  by (simp add: try_except_false_def split: prod.splits sum.splits)

lemma try_except_false_swallows:
  "fst (body w) = Inl e \<Longrightarrow> try_except_false body w = (Inr False, snd (body w))"
  by (auto simp: try_except_false_def split: prod.splits sum.splits)

lemma project_ready_body_snd:
  "snd (project_ready_body cfg ev c pid w) = snd (get_project cfg ev c pid w)"
  by (simp add: project_ready_body_def split: prod.splits sum.splits)

lemma project_ready_body_clock: "clock w \<le> clock (snd (project_ready_body cfg ev c pid w))"
  by (simp add: project_ready_body_snd get_project_def returning_json_snd make_request_def
        make_request_from_clock)

lemma project_ready_body_raises:
  "fst (get_project cfg ev c pid w) = Inl e \<Longrightarrow> fst (project_ready_body cfg ev c pid w) = Inl e"
  by (auto simp: project_ready_body_def split: prod.splits sum.splits)

text \<open>
  The loop of \<open>wait_for_build_completion\<close> against a server that answers every status
  request with a dict: \<open>n\<close> non-terminal payloads, each followed by one sleep of the
  poll interval, and then either a terminal payload, which is returned, or the deadline.
\<close>

lemma build_wait_loop_run:
  assumes R: "1 \<le> MAX_RETRIES cfg" and P: "0 < POLL_INTERVAL cfg"
    and ok: "\<forall>k. \<exists>resp. attempt_outcome ev (request_for c ''GET'' (''/builds/'' @ build_id) None) k
                  = Inr resp \<and> json_body resp = Inr (JObj (status k))"
  shows "\<exists>r w' n. build_wait_loop cfg ev c build_id T s w = Some (r, w')
           \<and> (\<forall>j<n. \<not> is_terminal (JObj (status (sent w + j))))
           \<and> ((r = Inr (JObj (status (sent w + n))) \<and> is_terminal (JObj (status (sent w + n)))
                 \<and> trace w' = trace w
                     @ concat (replicate n [Sent (request_for c ''GET'' (''/builds/'' @ build_id) None),
                                            Slept (POLL_INTERVAL cfg)])
                     @ [Sent (request_for c ''GET'' (''/builds/'' @ build_id) None)])
              \<or> (r = Inl (TimeoutError (build_timeout_message build_id T)) \<and> T \<le> clock w' - s
                 \<and> trace w' = trace w
                     @ concat (replicate n [Sent (request_for c ''GET'' (''/builds/'' @ build_id) None),
                                            Slept (POLL_INTERVAL cfg)])))"
proof (induction "nat (T - (clock w - s))" arbitrary: w rule: less_induct)
  case less
  let ?req = "request_for c ''GET'' (''/builds/'' @ build_id) None"
  let ?D = "POLL_INTERVAL cfg"
  show ?case
  proof (cases "clock w - s < T")
    case False
    then have "build_wait_loop cfg ev c build_id T s w =
                 Some (Inl (TimeoutError (build_timeout_message build_id T)), w)"
      by (subst build_wait_loop.simps) simp
    then show ?thesis
      using False
      by (intro exI[of _ "Inl (TimeoutError (build_timeout_message build_id T))"]
            exI[of _ w] exI[of _ "0::nat"]) simp
  next
    case True
    obtain resp where resp: "attempt_outcome ev ?req (sent w) = Inr resp"
      "json_body resp = Inr (JObj (status (sent w)))" using ok by blast
    define w1 where "w1 = snd (try_request ev ?req w)"
    have g: "get_build_status cfg ev c build_id w = (Inr (JObj (status (sent w))), w1)"
      using get_build_status_ok[OF R resp] by (simp add: w1_def)
    have w1: "sent w1 = Suc (sent w)" "trace w1 = trace w @ [Sent ?req]" "clock w \<le> clock w1"
      by (simp_all add: w1_def try_request_sent try_request_trace try_request_clock)
    obtain st where st: "dict_get (JObj (status (sent w))) ''state'' JNull = Inr st"
      by (simp add: dict_get_def)
    show ?thesis
    proof (cases "is_terminal (JObj (status (sent w)))")
      case terminal: True
      then have "st = JStr ''finished'' \<or> st = JStr ''canceled''"
        using st by (simp add: is_terminal_def)
      then have "build_wait_loop cfg ev c build_id T s w = Some (Inr (JObj (status (sent w))), w1)"
        using True g st by (subst build_wait_loop.simps) auto
      then show ?thesis using terminal w1
        by (intro exI[of _ "Inr (JObj (status (sent w)))"] exI[of _ w1] exI[of _ "0::nat"]) simp
    next
      case nonterm: False
      then have ns: "st \<noteq> JStr ''finished''" "st \<noteq> JStr ''canceled''"
        using st by (auto simp: is_terminal_def)
      define w2 where "w2 = snd (time_sleep ?D w1)"
      have sl: "time_sleep ?D w1 = (Inr (), w2)" using P by (simp add: w2_def time_sleep_def)
      have w2: "sent w2 = Suc (sent w)" "trace w2 = trace w @ [Sent ?req, Slept ?D]"
        "clock w2 = clock w1 + ?D"
        using P w1 by (simp_all add: w2_def time_sleep_def)
      have step: "build_wait_loop cfg ev c build_id T s w = build_wait_loop cfg ev c build_id T s w2"
        using True g st ns sl by (subst build_wait_loop.simps) simp
      have "nat (T - (clock w2 - s)) < nat (T - (clock w - s))"
        using True w2(3) w1(3) P by linarith
      then obtain r w' n where ih:
        "build_wait_loop cfg ev c build_id T s w2 = Some (r, w')"
        "\<forall>j<n. \<not> is_terminal (JObj (status (sent w2 + j)))"
        "(r = Inr (JObj (status (sent w2 + n))) \<and> is_terminal (JObj (status (sent w2 + n)))
           \<and> trace w' = trace w2 @ concat (replicate n [Sent ?req, Slept ?D]) @ [Sent ?req])
         \<or> (r = Inl (TimeoutError (build_timeout_message build_id T)) \<and> T \<le> clock w' - s
           \<and> trace w' = trace w2 @ concat (replicate n [Sent ?req, Slept ?D]))"
        using less.hyps[of w2] by blast
      have all: "\<forall>j<Suc n. \<not> is_terminal (JObj (status (sent w + j)))"
      proof (intro allI impI)
        fix j assume "j < Suc n"
        then show "\<not> is_terminal (JObj (status (sent w + j)))"
          using nonterm ih(2) w2(1) by (cases j) auto
      qed
      show ?thesis
        using step ih(1) all ih(3) w2(1,2)
        by (intro exI[of _ r] exI[of _ w'] exI[of _ "Suc n"]) auto
    qed
  qed
qed

text \<open>
  The same loop followed poll by poll. While the polls begin before the deadline and
  bring non-terminal payloads the loop goes on; it returns the first terminal payload
  whose poll begins before the deadline, and it times out at the first poll that would
  begin at or after the deadline.
\<close>

lemma poll_start_nonneg: "0 \<le> P \<Longrightarrow> 0 \<le> poll_start ev req P s n"
  by (induction n arbitrary: s) auto

lemma poll_start_mono: "0 \<le> P \<Longrightarrow> poll_start ev req P s n \<le> poll_start ev req P s (Suc n)"
proof (induction n arbitrary: s)
  case 0
  then show ?case by simp
next
  case (Suc n)
  from Suc.IH[OF Suc.prems, of "Suc s"] show ?case by simp
qed

lemma build_wait_loop_poll:
  assumes R: "1 \<le> MAX_RETRIES cfg" and P: "0 \<le> POLL_INTERVAL cfg"
    and ok: "\<forall>k. \<exists>resp. attempt_outcome ev (request_for c ''GET'' (''/builds/'' @ build_id) None) k
                  = Inr resp \<and> json_body resp = Inr (JObj (status k))"
    and inside: "clock w - s < T"
  shows "is_terminal (JObj (status (sent w))) \<Longrightarrow>
           build_wait_loop cfg ev c build_id T s w =
             Some (Inr (JObj (status (sent w))),
                   snd (try_request ev (request_for c ''GET'' (''/builds/'' @ build_id) None) w))"
    and "\<not> is_terminal (JObj (status (sent w))) \<Longrightarrow>
           build_wait_loop cfg ev c build_id T s w =
             build_wait_loop cfg ev c build_id T s
               (snd (time_sleep (POLL_INTERVAL cfg)
                  (snd (try_request ev (request_for c ''GET'' (''/builds/'' @ build_id) None) w))))"
proof -
  let ?req = "request_for c ''GET'' (''/builds/'' @ build_id) None"
  obtain resp where resp: "attempt_outcome ev ?req (sent w) = Inr resp"
    "json_body resp = Inr (JObj (status (sent w)))" using ok by blast
  define w1 where "w1 = snd (try_request ev ?req w)"
  have g: "get_build_status cfg ev c build_id w = (Inr (JObj (status (sent w))), w1)"
    using get_build_status_ok[OF R resp] by (simp add: w1_def)
  obtain st where st: "dict_get (JObj (status (sent w))) ''state'' JNull = Inr st"
    by (simp add: dict_get_def)
  {
    assume "is_terminal (JObj (status (sent w)))"
    then have "st = JStr ''finished'' \<or> st = JStr ''canceled''"
      using st by (simp add: is_terminal_def)
    then show "build_wait_loop cfg ev c build_id T s w =
             Some (Inr (JObj (status (sent w))), snd (try_request ev ?req w))"
      using inside g st unfolding w1_def by (subst build_wait_loop.simps) auto
  }
  {
    assume "\<not> is_terminal (JObj (status (sent w)))"
    then have ns: "st \<noteq> JStr ''finished''" "st \<noteq> JStr ''canceled''"
      using st by (auto simp: is_terminal_def)
    define w2 where "w2 = snd (time_sleep (POLL_INTERVAL cfg) w1)"
    have sl: "time_sleep (POLL_INTERVAL cfg) w1 = (Inr (), w2)"
      using P by (simp add: w2_def time_sleep_def)
    have "build_wait_loop cfg ev c build_id T s w = build_wait_loop cfg ev c build_id T s w2"
      using inside g st ns sl by (subst build_wait_loop.simps) simp
    then show "build_wait_loop cfg ev c build_id T s w =
             build_wait_loop cfg ev c build_id T s
               (snd (time_sleep (POLL_INTERVAL cfg) (snd (try_request ev ?req w))))"
      by (simp add: w2_def w1_def)
  }
qed

lemma build_wait_loop_returns:
  assumes R: "1 \<le> MAX_RETRIES cfg" and P: "0 \<le> POLL_INTERVAL cfg"
    and ok: "\<forall>k. \<exists>resp. attempt_outcome ev (request_for c ''GET'' (''/builds/'' @ build_id) None) k
                  = Inr resp \<and> json_body resp = Inr (JObj (status k))"
    and before: "\<forall>j<n. \<not> is_terminal (JObj (status (sent w + j)))"
    and at: "is_terminal (JObj (status (sent w + n)))"
    and time: "clock w - s + poll_start ev (request_for c ''GET'' (''/builds/'' @ build_id) None)
                  (POLL_INTERVAL cfg) (sent w) n < T"
  shows "\<exists>w'. build_wait_loop cfg ev c build_id T s w = Some (Inr (JObj (status (sent w + n))), w')
           \<and> sent w' = sent w + Suc n
           \<and> clock w' = clock w
               + poll_start ev (request_for c ''GET'' (''/builds/'' @ build_id) None)
                   (POLL_INTERVAL cfg) (sent w) n
               + int (snd (session_request ev (sent w + n)
                             (request_for c ''GET'' (''/builds/'' @ build_id) None)))
           \<and> trace w' = trace w
               @ concat (replicate n [Sent (request_for c ''GET'' (''/builds/'' @ build_id) None),
                                      Slept (POLL_INTERVAL cfg)])
               @ [Sent (request_for c ''GET'' (''/builds/'' @ build_id) None)]"
  using before at time
proof (induction n arbitrary: w)
  case 0
  let ?req = "request_for c ''GET'' (''/builds/'' @ build_id) None"
  have "clock w - s < T" using 0(3) by simp
  from build_wait_loop_poll(1)[OF R P ok this] 0(2)
  have "build_wait_loop cfg ev c build_id T s w
          = Some (Inr (JObj (status (sent w))), snd (try_request ev ?req w))" by simp
  then show ?case
    by (simp add: try_request_sent try_request_trace try_request_clock_eq)
next
  case (Suc n)
  let ?req = "request_for c ''GET'' (''/builds/'' @ build_id) None"
  let ?D = "POLL_INTERVAL cfg"
  define w2 where "w2 = snd (time_sleep ?D (snd (try_request ev ?req w)))"
  have w2: "sent w2 = Suc (sent w)" "trace w2 = trace w @ [Sent ?req, Slept ?D]"
    "clock w2 = clock w + int (snd (session_request ev (sent w) ?req)) + ?D"
    using P by (simp_all add: w2_def time_sleep_simps try_request_sent try_request_trace
                  try_request_clock_eq)
  have nn: "0 \<le> poll_start ev ?req ?D (Suc (sent w)) n" using P by (rule poll_start_nonneg)
  have inside: "clock w - s < T" using Suc.prems(3) nn P by simp
  have first: "\<not> is_terminal (JObj (status (sent w)))" using Suc.prems(1) by force
  have step: "build_wait_loop cfg ev c build_id T s w = build_wait_loop cfg ev c build_id T s w2"
    using build_wait_loop_poll(2)[OF R P ok inside first] by (simp add: w2_def)
  have b: "\<forall>j<n. \<not> is_terminal (JObj (status (sent w2 + j)))"
    using Suc.prems(1) w2(1) by (metis Suc_less_eq add_Suc_shift)
  have a: "is_terminal (JObj (status (sent w2 + n)))" using Suc.prems(2) w2(1) by simp
  have t: "clock w2 - s + poll_start ev ?req ?D (sent w2) n < T"
    using Suc.prems(3) w2(1,3) by simp
  from Suc.IH[OF b a t] obtain w' where w':
    "build_wait_loop cfg ev c build_id T s w2 = Some (Inr (JObj (status (sent w2 + n))), w')"
    "sent w' = sent w2 + Suc n"
    "clock w' = clock w2 + poll_start ev ?req ?D (sent w2) n
        + int (snd (session_request ev (sent w2 + n) ?req))"
    "trace w' = trace w2 @ concat (replicate n [Sent ?req, Slept ?D]) @ [Sent ?req]"
    by blast
  show ?case
    using step w' w2 by (intro exI[of _ w']) simp
qed

lemma build_wait_loop_times_out:
  assumes R: "1 \<le> MAX_RETRIES cfg" and P: "0 \<le> POLL_INTERVAL cfg"
    and ok: "\<forall>k. \<exists>resp. attempt_outcome ev (request_for c ''GET'' (''/builds/'' @ build_id) None) k
                  = Inr resp \<and> json_body resp = Inr (JObj (status k))"
    and before: "\<forall>j<n. \<not> is_terminal (JObj (status (sent w + j)))"
    and late: "T \<le> clock w - s + poll_start ev (request_for c ''GET'' (''/builds/'' @ build_id) None)
                  (POLL_INTERVAL cfg) (sent w) n"
    and last: "n = 0 \<or> clock w - s
                  + poll_start ev (request_for c ''GET'' (''/builds/'' @ build_id) None)
                      (POLL_INTERVAL cfg) (sent w) (n - 1) < T"
  shows "\<exists>w'. build_wait_loop cfg ev c build_id T s w
                 = Some (Inl (TimeoutError (build_timeout_message build_id T)), w')
           \<and> sent w' = sent w + n
           \<and> clock w' = clock w
               + poll_start ev (request_for c ''GET'' (''/builds/'' @ build_id) None)
                   (POLL_INTERVAL cfg) (sent w) n
           \<and> trace w' = trace w
               @ concat (replicate n [Sent (request_for c ''GET'' (''/builds/'' @ build_id) None),
                                      Slept (POLL_INTERVAL cfg)])"
  using before late last
proof (induction n arbitrary: w)
  case 0
  then have "\<not> clock w - s < T" by simp
  then have "build_wait_loop cfg ev c build_id T s w
               = Some (Inl (TimeoutError (build_timeout_message build_id T)), w)"
    by (subst build_wait_loop.simps) simp
  then show ?case by simp
next
  case (Suc n)
  let ?req = "request_for c ''GET'' (''/builds/'' @ build_id) None"
  let ?D = "POLL_INTERVAL cfg"
  define w2 where "w2 = snd (time_sleep ?D (snd (try_request ev ?req w)))"
  have w2: "sent w2 = Suc (sent w)" "trace w2 = trace w @ [Sent ?req, Slept ?D]"
    "clock w2 = clock w + int (snd (session_request ev (sent w) ?req)) + ?D"
    using P by (simp_all add: w2_def time_sleep_simps try_request_sent try_request_trace
                  try_request_clock_eq)
  have lastn: "clock w - s + poll_start ev ?req ?D (sent w) n < T" using Suc.prems(3) by simp
  have "0 \<le> poll_start ev ?req ?D (sent w) n" using P by (rule poll_start_nonneg)
  then have inside: "clock w - s < T" using lastn by simp
  have first: "\<not> is_terminal (JObj (status (sent w)))" using Suc.prems(1) by force
  have step: "build_wait_loop cfg ev c build_id T s w = build_wait_loop cfg ev c build_id T s w2"
    using build_wait_loop_poll(2)[OF R P ok inside first] by (simp add: w2_def)
  have b: "\<forall>j<n. \<not> is_terminal (JObj (status (sent w2 + j)))"
    using Suc.prems(1) w2(1) by (metis Suc_less_eq add_Suc_shift)
  have l: "T \<le> clock w2 - s + poll_start ev ?req ?D (sent w2) n"
    using Suc.prems(2) w2(1,3) by simp
  have la: "n = 0 \<or> clock w2 - s + poll_start ev ?req ?D (sent w2) (n - 1) < T"
  proof (cases n)
    case 0
    then show ?thesis by simp
  next
    case (Suc m)
    then show ?thesis using lastn w2(1,3) by simp
  qed
  from Suc.IH[OF b l la] obtain w' where w':
    "build_wait_loop cfg ev c build_id T s w2
       = Some (Inl (TimeoutError (build_timeout_message build_id T)), w')"
    "sent w' = sent w2 + n"
    "clock w' = clock w2 + poll_start ev ?req ?D (sent w2) n"
    "trace w' = trace w2 @ concat (replicate n [Sent ?req, Slept ?D])"
    by blast
  show ?case
    using step w' w2 by (intro exI[of _ w']) simp
qed

text \<open>
  A predicate with the tests' \<open>try\<close>/\<open>except\<close> around its body, followed round by
  round. A round in which the body says no or raises, begun before the deadline, is
  followed by the sleep and the next round.
\<close>

lemma try_except_false_no:
  "fst (body w) = Inr False \<or> (\<exists>e. fst (body w) = Inl e)
     \<Longrightarrow> fst (try_except_false body w) = Inr False"
  by (auto simp: try_except_false_def split: prod.splits sum.splits)

lemma try_except_false_yes:
  "fst (body w) = Inr True \<Longrightarrow> try_except_false body w = (Inr True, snd (body w))"
  by (auto simp: try_except_false_def split: prod.splits sum.splits)

lemma wait_loop_round:
  assumes "clock w - s < T" and "fst (cond w) = Inr False" and "0 \<le> P"
  shows "wait_loop cond T P msg s w = wait_loop cond T P msg s (snd (time_sleep P (snd (cond w))))"
proof -
  obtain r1 w1 where c: "cond w = (r1, w1)" by (cases "cond w")
  then have r1: "r1 = Inr False" using assms(2) by simp
  define w2 where "w2 = snd (time_sleep P w1)"
  have sl: "time_sleep P w1 = (Inr (), w2)" using assms(3) by (simp add: w2_def time_sleep_def)
  have "wait_loop cond T P msg s w = wait_loop cond T P msg s w2"
    using assms(1) c r1 sl by (subst wait_loop.simps) simp
  then show ?thesis using c by (simp add: w2_def)
qed

lemma wait_loop_yes:
  assumes "clock w - s < T" and "fst (cond w) = Inr True"
  shows "wait_loop cond T P msg s w = Some (Inr True, snd (cond w))"
proof -
  obtain r1 w1 where c: "cond w = (r1, w1)" by (cases "cond w")
  then have "r1 = Inr True" using assms(2) by simp
  then show ?thesis using assms(1) c by (subst wait_loop.simps) simp
qed

lemma wait_loop_guarded_rounds:
  assumes "0 \<le> P"
    and "\<forall>j<n. clock ((poll_round body P ^^ j) w) - s < T
            \<and> (fst (body ((poll_round body P ^^ j) w)) = Inr False
                \<or> (\<exists>e. fst (body ((poll_round body P ^^ j) w)) = Inl e))"
  shows "wait_loop (try_except_false body) T P msg s w
           = wait_loop (try_except_false body) T P msg s ((poll_round body P ^^ n) w)"
  using assms(2)
proof (induction n arbitrary: w)
  case 0
  then show ?case by simp
next
  case (Suc n)
  have first: "clock w - s < T"
    "fst (body w) = Inr False \<or> (\<exists>e. fst (body w) = Inl e)"
    using Suc.prems by force+
  have no: "fst (try_except_false body w) = Inr False"
    using first(2) by (rule try_except_false_no)
  have step: "wait_loop (try_except_false body) T P msg s w
      = wait_loop (try_except_false body) T P msg s (poll_round body P w)"
    using wait_loop_round[of w s T "try_except_false body" P msg] first(1) no assms(1)
    by (simp add: poll_round_def try_except_false_snd)
  have "\<forall>j<n. clock ((poll_round body P ^^ j) (poll_round body P w)) - s < T
            \<and> (fst (body ((poll_round body P ^^ j) (poll_round body P w))) = Inr False
                \<or> (\<exists>e. fst (body ((poll_round body P ^^ j) (poll_round body P w))) = Inl e))"
  proof (intro allI impI)
    fix j assume "j < n"
    then have "Suc j < Suc n" by simp
    from Suc.prems[rule_format, OF this]
    show "clock ((poll_round body P ^^ j) (poll_round body P w)) - s < T
            \<and> (fst (body ((poll_round body P ^^ j) (poll_round body P w))) = Inr False
                \<or> (\<exists>e. fst (body ((poll_round body P ^^ j) (poll_round body P w))) = Inl e))"
      by (simp add: funpow_swap1)
  qed
  from Suc.IH[OF this] step show ?case by (simp add: funpow_swap1)
qed

section \<open>The retry budget\<close>

text \<open>
  Claim C1. Let the retry budget be \<open>R \<ge> 1\<close>, let \<open>raise_for_status\<close> be the
  library's, and let the first \<open>n < R\<close> attempts of a \<open>_make_request\<close> call fail:
  the transport raises a \<open>RequestException\<close>, or the status is 4xx or 5xx. If attempt
  \<open>n + 1\<close> brings a response with any other status, that response is returned,
  nothing is signalled and no further attempt is made: exactly \<open>n + 1\<close> requests are
  sent, each but the last followed by one sleep of the poll interval. For \<open>n = R - 1\<close>
  this is the success at the last attempt of the budget. If attempt \<open>n + 1\<close> is the
  last of the budget and fails too, its error is raised, after exactly \<open>R\<close> requests.
  A status below 400 is never a failure: a 3xx response is returned like a 2xx one.
\<close>

theorem make_request_retry_budget:
  assumes "raise_for_status ev = requests_raise_for_status"
    and "MAX_RETRIES cfg = int R" and "n < R" and "0 \<le> POLL_INTERVAL cfg"
    and "\<forall>k<n. attempt_failed ev (request_for c meth endpoint payload) (sent w + k)"
  shows "(\<forall>resp. fst (session_request ev (sent w + n) (request_for c meth endpoint payload))
                  = Inr resp
               \<and> \<not> (400 \<le> status_code resp \<and> status_code resp < 600)
            \<longrightarrow> fst (make_request cfg ev c meth endpoint payload w) = Inr (Some resp))
       \<and> (Suc n = R \<and> attempt_failed ev (request_for c meth endpoint payload) (sent w + n)
            \<longrightarrow> (\<exists>m. attempt_outcome ev (request_for c meth endpoint payload) (sent w + n)
                        = Inl (RequestException m)
                   \<and> fst (make_request cfg ev c meth endpoint payload w) = Inl (RequestException m)))
       \<and> (Suc n = R
           \<or> (\<exists>resp. fst (session_request ev (sent w + n) (request_for c meth endpoint payload))
                        = Inr resp
                     \<and> \<not> (400 \<le> status_code resp \<and> status_code resp < 600))
            \<longrightarrow> sent (snd (make_request cfg ev c meth endpoint payload w)) = sent w + Suc n
              \<and> trace (snd (make_request cfg ev c meth endpoint payload w)) =
                  trace w @ concat (replicate n
                       [Sent (request_for c meth endpoint payload), Slept (POLL_INTERVAL cfg)])
                    @ [Sent (request_for c meth endpoint payload)])"
proof -
  let ?req = "request_for c meth endpoint payload"
  have f: "\<forall>k<n. \<exists>m. attempt_outcome ev ?req (sent w + k) = Inl (RequestException m)"
    using assms(5) attempt_failed_outcome[OF assms(1)] by simp
  have lt: "int (0 + n) < MAX_RETRIES cfg" using assms(2,3) by simp
  obtain w' where w':
    "make_request_from cfg ev ?req 0 w = make_request_from cfg ev ?req n w'"
    "sent w' = sent w + n"
    "trace w' = trace w @ concat (replicate n [Sent ?req, Slept (POLL_INTERVAL cfg)])"
    using make_request_from_retries[OF assms(4) f lt] by auto
  have won: "fst (make_request cfg ev c meth endpoint payload w) = Inr (Some resp)
      \<and> sent (snd (make_request cfg ev c meth endpoint payload w)) = sent w + Suc n
      \<and> trace (snd (make_request cfg ev c meth endpoint payload w)) =
          trace w @ concat (replicate n [Sent ?req, Slept (POLL_INTERVAL cfg)]) @ [Sent ?req]"
    if r: "fst (session_request ev (sent w + n) ?req) = Inr resp"
      "\<not> (400 \<le> status_code resp \<and> status_code resp < 600)" for resp
  proof -
    have "attempt_outcome ev ?req (sent w') = Inr resp"
      using r w'(2) assms(1) by (auto simp: attempt_outcome_def requests_raise_for_status_def)
    moreover have "int n < MAX_RETRIES cfg" using lt by simp
    ultimately have "make_request_from cfg ev ?req n w'
        = (Inr (Some resp), snd (try_request ev ?req w'))"
      by (rule make_request_from_success[rotated])
    then show ?thesis
      using w' by (simp add: make_request_def try_request_sent try_request_trace)
  qed
  have lost: "(\<exists>m. attempt_outcome ev ?req (sent w + n) = Inl (RequestException m)
                 \<and> fst (make_request cfg ev c meth endpoint payload w) = Inl (RequestException m))"
    if l: "Suc n = R" "attempt_failed ev ?req (sent w + n)"
  proof -
    have R': "MAX_RETRIES cfg = int (Suc n)" using assms(2) l(1) by simp
    obtain m where m: "attempt_outcome ev ?req (sent w + n) = Inl (RequestException m)"
      using l(2) attempt_failed_outcome[OF assms(1)] by blast
    then show ?thesis
      using make_request_from_last_attempt(1)[OF R', of ev ?req w'] w'
      by (simp add: make_request_def)
  qed
  have last: "sent (snd (make_request cfg ev c meth endpoint payload w)) = sent w + Suc n
      \<and> trace (snd (make_request cfg ev c meth endpoint payload w)) =
          trace w @ concat (replicate n [Sent ?req, Slept (POLL_INTERVAL cfg)]) @ [Sent ?req]"
    if l: "Suc n = R"
  proof -
    have R': "MAX_RETRIES cfg = int (Suc n)" using assms(2) l by simp
    show ?thesis
      using make_request_from_last_attempt(2,3)[OF R', of ev ?req w'] w'
      by (simp add: make_request_def)
  qed
  show ?thesis using won lost last by blast
qed

text \<open>
  With the shipped settings (three attempts). Against the server that fails twice, once
  in the transport and once with a 503, the third response comes back after three
  requests; against the dead server the third error is raised after three requests;
  the server whose first answer is a 304 has that answer returned after one request.
\<close>

theorem make_request_retry_budget_witness:
  "attempt_failed flaky_server
       (request_for (TeamCityClient_init default_settings) ''GET'' ''/projects'' None) 0
   \<and> attempt_failed flaky_server
       (request_for (TeamCityClient_init default_settings) ''GET'' ''/projects'' None) 1
   \<and> fst (make_request default_settings flaky_server (TeamCityClient_init default_settings)
          ''GET'' ''/projects'' None world0) = Inr (Some (ok_response (JObj [])))
   \<and> sent (snd (make_request default_settings flaky_server (TeamCityClient_init default_settings)
          ''GET'' ''/projects'' None world0)) = 3
   \<and> fst (make_request default_settings dead_server (TeamCityClient_init default_settings)
          ''GET'' ''/projects'' None world0) = Inl (RequestException ''ConnectionError 2'')
   \<and> sent (snd (make_request default_settings dead_server (TeamCityClient_init default_settings)
          ''GET'' ''/projects'' None world0)) = 3
   \<and> fst (make_request default_settings not_modified_server
            (TeamCityClient_init default_settings) ''GET'' ''/projects'' None world0)
       = Inr (Some \<lparr> status_code = 304, json_body = Inl (ValueError ''no JSON'') \<rparr>)
   \<and> sent (snd (make_request default_settings not_modified_server
            (TeamCityClient_init default_settings) ''GET'' ''/projects'' None world0)) = 1"
  using make_request_retry_budget[of flaky_server default_settings 3 2
          "TeamCityClient_init default_settings" "''GET''" "''/projects''" None world0]
        make_request_retry_budget[of dead_server default_settings 3 2
          "TeamCityClient_init default_settings" "''GET''" "''/projects''" None world0]
        make_request_retry_budget[of not_modified_server default_settings 3 0
          "TeamCityClient_init default_settings" "''GET''" "''/projects''" None world0]
  by (simp add: default_settings_def world0_def attempt_outcome_def attempt_failed_def
        flaky_server_def dead_server_def not_modified_server_def requests_raise_for_status_def
        ok_response_def str_nat.simps less_Suc_eq numeral_2_eq_2)

text \<open>
  A 304 is not a 2xx status, and the loop does not take it as a failure: with three
  attempts allowed, the first answer of the server that says 304, 304, 200 is returned
  after one request, and the 200 is never asked for.
\<close>

theorem make_request_returns_not_modified:
  "fst (make_request default_settings not_modified_server (TeamCityClient_init default_settings)
          ''GET'' ''/projects'' None world0)
     = Inr (Some \<lparr> status_code = 304, json_body = Inl (ValueError ''no JSON'') \<rparr>)
   \<and> sent (snd (make_request default_settings not_modified_server
                  (TeamCityClient_init default_settings) ''GET'' ''/projects'' None world0)) = 1
   \<and> MAX_RETRIES default_settings = 3"
  by (simp add: make_request_def make_request_from.simps try_request_def default_settings_def
        world0_def not_modified_server_def requests_raise_for_status_def)

section \<open>The verdict of the poller\<close>



section \<open>The first evaluation\<close>

text \<open>
  Claim C3. The loop of \<open>wait_for_condition\<close> checks the deadline before it calls the
  predicate. For every timeout \<open>T > 0\<close> that first check passes, so the predicate is
  evaluated at least once, and the evaluation is the first thing the call does, before
  any sleep (shown for every run whose clock moves: \<open>P \<noteq> 0\<close>, or a predicate that
  takes time). With an always-true predicate and \<open>T > 0\<close> the call returns \<open>True\<close>
  after that one evaluation and no sleep, whatever \<open>P\<close> is. For \<open>T \<le> 0\<close> the
  predicate is not evaluated at all: the call raises \<open>TimeoutError\<close> at once.
\<close>

theorem wait_for_condition_first_evaluation:
  "(0 < T \<and> (P \<noteq> 0 \<or> (\<forall>k. 0 < snd (f k))) \<longrightarrow>
      (\<exists>r w' es. wait_for_condition cfg (scripted f) (Some T) (Some P) msg w = Some (r, w')
          \<and> trace w' = trace w @ Evaluated (calls w) # es))
   \<and> (0 < T \<and> (\<forall>k. fst (f k) = Inr True) \<longrightarrow>
      (\<exists>w'. wait_for_condition cfg (scripted f) (Some T) (Some P) msg w = Some (Inr True, w')
          \<and> calls w' = Suc (calls w)
          \<and> trace w' = trace w @ [Evaluated (calls w)]))
   \<and> (T \<le> 0 \<longrightarrow>
      wait_for_condition cfg (scripted f) (Some T) (Some P) msg w =
        Some (Inl (TimeoutError
           (case msg of None \<Rightarrow> ''Condition not met within timeout'' | Some m \<Rightarrow> m)), w))"
proof (intro conjI impI)
  assume a: "0 < T \<and> (P \<noteq> 0 \<or> (\<forall>k. 0 < snd (f k)))"
  then have p: "P \<noteq> 0 \<or> (\<forall>k. 0 < snd (f k))" and t: "clock w - clock w < T" by simp_all
  obtain r w' es where
    "wait_loop (scripted f) T P
       (case msg of None \<Rightarrow> ''Condition not met within timeout'' | Some m \<Rightarrow> m) (clock w) w
       = Some (r, w')"
    "trace w' = trace w @ es" "es \<noteq> [] \<and> hd es = Evaluated (calls w)"
    using wait_loop_first_event[OF p, of T
        "case msg of None \<Rightarrow> ''Condition not met within timeout'' | Some m \<Rightarrow> m" "clock w" w] t
    by blast
  moreover from this obtain es' where "es = Evaluated (calls w) # es'" by (cases es) auto
  ultimately show "\<exists>r w' es. wait_for_condition cfg (scripted f) (Some T) (Some P) msg w
          = Some (r, w')
          \<and> trace w' = trace w @ Evaluated (calls w) # es"
    by (auto simp: wait_for_condition_def)
next
  assume "0 < T \<and> (\<forall>k. fst (f k) = Inr True)"
  then show "\<exists>w'. wait_for_condition cfg (scripted f) (Some T) (Some P) msg w = Some (Inr True, w')
          \<and> calls w' = Suc (calls w)
          \<and> trace w' = trace w @ [Evaluated (calls w)]"
    by (simp add: wait_for_condition_def wait_loop_true_at_once scripted_simps)
next
  assume "T \<le> 0"
  then show "wait_for_condition cfg (scripted f) (Some T) (Some P) msg w =
        Some (Inl (TimeoutError
           (case msg of None \<Rightarrow> ''Condition not met within timeout'' | Some m \<Rightarrow> m)), w)"
    by (simp add: wait_for_condition_def wait_loop_deadline_passed)
qed

text \<open>
  The three cases at the shipped poll interval: a predicate that is never true and a
  timeout of 7, the always-true predicate and a timeout of 30, the always-true
  predicate and a timeout of \<open>-1\<close>.
\<close>

theorem wait_for_condition_first_evaluation_witness:
  "(\<exists>r w' es. wait_for_condition default_settings (scripted never_true) (Some 7) (Some 2) None
        world0 = Some (r, w') \<and> trace w' = Evaluated 0 # es)
   \<and> (\<exists>w'. wait_for_condition default_settings (scripted always_true) (Some 30) (Some 2) None
        world0 = Some (Inr True, w') \<and> calls w' = 1 \<and> trace w' = [Evaluated 0])
   \<and> wait_for_condition default_settings (scripted always_true) (Some (- 1)) (Some 2) None world0
       = Some (Inl (TimeoutError ''Condition not met within timeout''), world0)"
  using wait_for_condition_first_evaluation[of 7 2 never_true default_settings None world0]
    wait_for_condition_first_evaluation[of 30 2 always_true default_settings None world0]
    wait_for_condition_first_evaluation[of "- 1" 2 always_true default_settings None world0]
  by (simp add: always_true_def world0_def)

text \<open>
  With a timeout of zero the always-true predicate is never called: the call raises
  \<open>TimeoutError\<close> and leaves the world, with its empty trace, as it found it.
\<close>

theorem wait_for_condition_zero_timeout_skips_predicate:
  "wait_for_condition default_settings (scripted always_true) (Some 0) (Some 2) None world0
     = Some (Inl (TimeoutError ''Condition not met within timeout''), world0)
   \<and> calls world0 = 0 \<and> trace world0 = []"
  by (simp add: wait_for_condition_def wait_loop.simps world0_def)

section \<open>Waiting for a build\<close>

text \<open>
  Claim C4. A server answers every status request with a dict, the payload of the k-th
  request being \<open>status k\<close>, and the first \<open>n\<close> payloads that
  \<open>wait_for_build_completion\<close> polls have a state that is neither \<open>finished\<close> nor
  \<open>canceled\<close>. After each of them, whatever its state, the call sleeps exactly the
  poll interval and polls again, as long as the next poll begins before the timeout
  has elapsed. If the payload with index \<open>n\<close> is terminal and its poll begins before
  the timeout has elapsed, that payload is returned, after \<open>n + 1\<close> requests and \<open>n\<close>
  sleeps. If instead the timeout has elapsed when the poll with index \<open>n\<close> would
  begin, no further request is made and \<open>TimeoutError\<close> is raised, terminal payload
  or not. With a positive poll interval one of the two happens: the call returns.
\<close>

theorem wait_for_build_completion_first_terminal:
  assumes "1 \<le> MAX_RETRIES cfg" and "0 \<le> POLL_INTERVAL cfg"
    and "\<forall>k. \<exists>resp. attempt_outcome ev (request_for c ''GET'' (''/builds/'' @ build_id) None) k
                  = Inr resp \<and> json_body resp = Inr (JObj (status k))"
    and "\<forall>j<n. \<not> is_terminal (JObj (status (sent w + j)))"
  shows "(is_terminal (JObj (status (sent w + n)))
          \<and> poll_start ev (request_for c ''GET'' (''/builds/'' @ build_id) None)
                (POLL_INTERVAL cfg) (sent w) n < T
          \<longrightarrow> (\<exists>w'. wait_for_build_completion cfg ev c build_id (Some T) w
                       = Some (Inr (JObj (status (sent w + n))), w')
                 \<and> sent w' = sent w + Suc n
                 \<and> clock w' = clock w
                     + poll_start ev (request_for c ''GET'' (''/builds/'' @ build_id) None)
                         (POLL_INTERVAL cfg) (sent w) n
                     + int (snd (session_request ev (sent w + n)
                                   (request_for c ''GET'' (''/builds/'' @ build_id) None)))
                 \<and> trace w' = trace w
                     @ concat (replicate n [Sent (request_for c ''GET'' (''/builds/'' @ build_id) None),
                                            Slept (POLL_INTERVAL cfg)])
                     @ [Sent (request_for c ''GET'' (''/builds/'' @ build_id) None)]))
       \<and> (T \<le> poll_start ev (request_for c ''GET'' (''/builds/'' @ build_id) None)
                  (POLL_INTERVAL cfg) (sent w) n
          \<and> (n = 0 \<or> poll_start ev (request_for c ''GET'' (''/builds/'' @ build_id) None)
                  (POLL_INTERVAL cfg) (sent w) (n - 1) < T)
          \<longrightarrow> (\<exists>w'. wait_for_build_completion cfg ev c build_id (Some T) w
                       = Some (Inl (TimeoutError (build_timeout_message build_id T)), w')
                 \<and> sent w' = sent w + n
                 \<and> clock w' = clock w
                     + poll_start ev (request_for c ''GET'' (''/builds/'' @ build_id) None)
                         (POLL_INTERVAL cfg) (sent w) n
                 \<and> trace w' = trace w
                     @ concat (replicate n [Sent (request_for c ''GET'' (''/builds/'' @ build_id) None),
                                            Slept (POLL_INTERVAL cfg)])))
       \<and> (0 < POLL_INTERVAL cfg
          \<longrightarrow> (\<exists>r w'. wait_for_build_completion cfg ev c build_id (Some T) w = Some (r, w')))"
proof (intro conjI impI)
  let ?req = "request_for c ''GET'' (''/builds/'' @ build_id) None"
  assume a: "is_terminal (JObj (status (sent w + n)))
          \<and> poll_start ev ?req (POLL_INTERVAL cfg) (sent w) n < T"
  then have "clock w - clock w + poll_start ev ?req (POLL_INTERVAL cfg) (sent w) n < T" by simp
  from build_wait_loop_returns[OF assms(1-3) assms(4) conjunct1[OF a] this]
  show "\<exists>w'. wait_for_build_completion cfg ev c build_id (Some T) w
                       = Some (Inr (JObj (status (sent w + n))), w')
                 \<and> sent w' = sent w + Suc n
                 \<and> clock w' = clock w + poll_start ev ?req (POLL_INTERVAL cfg) (sent w) n
                     + int (snd (session_request ev (sent w + n) ?req))
                 \<and> trace w' = trace w
                     @ concat (replicate n [Sent ?req, Slept (POLL_INTERVAL cfg)]) @ [Sent ?req]"
    by (simp add: wait_for_build_completion_def)
next
  let ?req = "request_for c ''GET'' (''/builds/'' @ build_id) None"
  assume b: "T \<le> poll_start ev ?req (POLL_INTERVAL cfg) (sent w) n
          \<and> (n = 0 \<or> poll_start ev ?req (POLL_INTERVAL cfg) (sent w) (n - 1) < T)"
  then have l: "T \<le> clock w - clock w + poll_start ev ?req (POLL_INTERVAL cfg) (sent w) n"
    and la: "n = 0 \<or> clock w - clock w
               + poll_start ev ?req (POLL_INTERVAL cfg) (sent w) (n - 1) < T"
    by simp_all
  from build_wait_loop_times_out[OF assms(1-3) assms(4) l la]
  show "\<exists>w'. wait_for_build_completion cfg ev c build_id (Some T) w
                       = Some (Inl (TimeoutError (build_timeout_message build_id T)), w')
                 \<and> sent w' = sent w + n
                 \<and> clock w' = clock w + poll_start ev ?req (POLL_INTERVAL cfg) (sent w) n
                 \<and> trace w' = trace w
                     @ concat (replicate n [Sent ?req, Slept (POLL_INTERVAL cfg)])"
    by (simp add: wait_for_build_completion_def)
next
  assume "0 < POLL_INTERVAL cfg"
  from build_wait_loop_run[OF assms(1) this assms(3), of T "clock w" w]
  show "\<exists>r w'. wait_for_build_completion cfg ev c build_id (Some T) w = Some (r, w')"
    by (auto simp: wait_for_build_completion_def)
qed

text \<open>
  The build that is queued, running, finished, each request taking one tick, polled
  every two ticks. With a timeout of 300 the third payload is returned, after three
  requests and 7 ticks. With a timeout of 6 the third poll would begin at tick 6: it is
  not made, and the call times out after two requests, although the build has
  finished.
\<close>

theorem wait_for_build_completion_first_terminal_witness:
  "(\<exists>w'. wait_for_build_completion default_settings build_server
             (TeamCityClient_init default_settings) ''7'' (Some 300) world0
           = Some (Inr (JObj (build_statuses 2)), w')
       \<and> sent w' = 3 \<and> clock w' = 7)
   \<and> (\<exists>w'. wait_for_build_completion default_settings build_server
             (TeamCityClient_init default_settings) ''7'' (Some 6) world0
           = Some (Inl (TimeoutError ''Build 7 did not complete within 6 seconds''), w')
       \<and> sent w' = 2 \<and> clock w' = 6)
   \<and> is_terminal (JObj (build_statuses 2))"
proof -
  let ?c = "TeamCityClient_init default_settings"
  have ok: "\<forall>k. \<exists>resp. attempt_outcome build_server (request_for ?c ''GET'' (''/builds/'' @ ''7'') None) k
               = Inr resp \<and> json_body resp = Inr (JObj (build_statuses k))"
    by (simp add: attempt_outcome_def build_server_def requests_raise_for_status_def ok_response_def)
  have before: "\<forall>j<2. \<not> is_terminal (JObj (build_statuses (sent world0 + j)))"
    by (simp add: is_terminal_def dict_get_def build_statuses_def world0_def less_Suc_eq
          numeral_2_eq_2)
  have at: "is_terminal (JObj (build_statuses 2))"
    by (simp add: is_terminal_def dict_get_def build_statuses_def)
  have start: "poll_start build_server (request_for ?c ''GET'' (''/builds/'' @ ''7'') None)
                 (POLL_INTERVAL default_settings) (sent world0) 2 = 6"
    "poll_start build_server (request_for ?c ''GET'' (''/builds/'' @ ''7'') None)
                 (POLL_INTERVAL default_settings) (sent world0) (2 - 1) = 3"
    by (simp_all add: numeral_2_eq_2 build_server_def default_settings_def)
  have cfg: "1 \<le> MAX_RETRIES default_settings" "0 \<le> POLL_INTERVAL default_settings"
    by (simp_all add: default_settings_def)
  note t300 = wait_for_build_completion_first_terminal[OF cfg ok before, of 300]
    and t6 = wait_for_build_completion_first_terminal[OF cfg ok before, of 6]
  have s0: "sent world0 = 0" "clock world0 = 0" by (simp_all add: world0_def)
  have e2: "sent world0 + 2 = 2" by (simp add: world0_def)
  have at': "is_terminal (JObj (build_statuses (sent world0 + 2)))" using at unfolding e2 .
  have d2: "int (snd (session_request build_server (sent world0 + 2)
                    (request_for ?c ''GET'' (''/builds/'' @ ''7'') None))) = 1"
    by (simp add: build_server_def)
  have msg: "build_timeout_message ''7'' 6 = ''Build 7 did not complete within 6 seconds''"
    by (simp add: build_timeout_message_def str_int_def str_nat.simps)
  from t300 at' start(1) obtain w1 where w1:
    "wait_for_build_completion default_settings build_server ?c ''7'' (Some 300) world0
       = Some (Inr (JObj (build_statuses (sent world0 + 2))), w1)"
    "sent w1 = sent world0 + Suc 2"
    "clock w1 = clock world0
        + poll_start build_server (request_for ?c ''GET'' (''/builds/'' @ ''7'') None)
            (POLL_INTERVAL default_settings) (sent world0) 2
        + int (snd (session_request build_server (sent world0 + 2)
                      (request_for ?c ''GET'' (''/builds/'' @ ''7'') None)))"
    by auto
  have a: "\<exists>w'. wait_for_build_completion default_settings build_server ?c ''7'' (Some 300) world0
           = Some (Inr (JObj (build_statuses 2)), w') \<and> sent w' = 3 \<and> clock w' = 7"
    using w1[unfolded e2] s0 start(1) d2[unfolded e2] by (intro exI[of _ w1]) simp
  from t6 start obtain w2 where w2:
    "wait_for_build_completion default_settings build_server ?c ''7'' (Some 6) world0
       = Some (Inl (TimeoutError (build_timeout_message ''7'' 6)), w2)"
    "sent w2 = sent world0 + 2"
    "clock w2 = clock world0
        + poll_start build_server (request_for ?c ''GET'' (''/builds/'' @ ''7'') None)
            (POLL_INTERVAL default_settings) (sent world0) 2"
    by auto
  have b: "\<exists>w'. wait_for_build_completion default_settings build_server ?c ''7'' (Some 6) world0
           = Some (Inl (TimeoutError ''Build 7 did not complete within 6 seconds''), w')
           \<and> sent w' = 2 \<and> clock w' = 6"
    using w2 s0 start(1) msg by (intro exI[of _ w2]) simp
  show ?thesis using a b at by blast
qed

section \<open>Failures through the wrappers\<close>

text \<open>
  Claim C5. Every endpoint-specific wrapper makes exactly one \<open>_make_request\<close> call,
  with its fixed method, path and payload, and leaves the world as that call leaves
  it: it adds no request and no sleep, and with a budget of at least one attempt its
  request goes out whatever the arguments are. Every wrapper but \<open>delete_project\<close>
  raises whatever \<open>_make_request\<close> raises, unchanged; so when every attempt fails
  with a \<open>RequestException\<close> and the budget of \<open>R \<ge> 1\<close> attempts is exhausted,
  each of them raises the error of its last attempt. \<open>delete_project\<close> is the
  exception: a \<open>RequestException\<close> raised by \<open>_make_request\<close> is caught and \<open>False\<close>
  is returned, \<open>True\<close> is returned when \<open>_make_request\<close> returns, and any other
  exception passes.
\<close>

theorem wrappers_propagate_except_delete:
  "(snd (get_projects cfg ev c w) = snd (make_request cfg ev c ''GET'' ''/projects'' None w)
    \<and> snd (get_project cfg ev c pid w)
        = snd (make_request cfg ev c ''GET'' (''/projects/'' @ pid) None w)
    \<and> snd (create_project cfg ev c pdata w)
        = snd (make_request cfg ev c ''POST'' ''/projects'' (Some pdata) w)
    \<and> snd (delete_project cfg ev c pid w)
        = snd (make_request cfg ev c ''DELETE'' (''/projects/'' @ pid) None w)
    \<and> snd (get_versioned_settings cfg ev c pid w)
        = snd (make_request cfg ev c ''GET''
                 (''/projects/id:'' @ pid @ ''/versionedSettings/status'') None w)
    \<and> snd (enable_versioned_settings cfg ev c pid vs w)
        = snd (make_request cfg ev c ''PUT''
                 (''/projects/'' @ pid @ ''/versionedSettings/config'') (Some vs) w)
    \<and> snd (trigger_versioned_settings_sync cfg ev c pid w)
        = snd (make_request cfg ev c ''POST''
                 (''/projects/'' @ pid @ ''/versionedSettings/synchronize'') None w)
    \<and> snd (get_build_configurations cfg ev c pid w)
        = snd (make_request cfg ev c ''GET'' (''/buildTypes?locator=project:'' @ pid) None w)
    \<and> snd (trigger_build cfg ev c bid props w)
        = snd (make_request cfg ev c ''POST'' ''/buildQueue'' (Some (build_data bid props)) w)
    \<and> snd (get_build_status cfg ev c bid w)
        = snd (make_request cfg ev c ''GET'' (''/builds/'' @ bid) None w)
    \<and> snd (get_vcs_roots cfg ev c vp w)
        = snd (make_request cfg ev c ''GET''
                 (case vp of None \<Rightarrow> ''/vcs-roots''
                  | Some p \<Rightarrow> if p = [] then ''/vcs-roots''
                             else ''/vcs-roots?locator=project:'' @ p) None w)
    \<and> snd (create_vcs_root cfg ev c vdata w)
        = snd (make_request cfg ev c ''POST'' ''/vcs-roots'' (Some vdata) w))
   \<and> (1 \<le> MAX_RETRIES cfg \<longrightarrow>
        (\<forall>meth endpoint payload. \<exists>es.
            trace (snd (make_request cfg ev c meth endpoint payload w))
              = trace w @ Sent (request_for c meth endpoint payload) # es))
   \<and> (\<forall>e. (fst (make_request cfg ev c ''GET'' ''/projects'' None w) = Inl e
            \<longrightarrow> fst (get_projects cfg ev c w) = Inl e)
        \<and> (fst (make_request cfg ev c ''GET'' (''/projects/'' @ pid) None w) = Inl e
            \<longrightarrow> fst (get_project cfg ev c pid w) = Inl e)
        \<and> (fst (make_request cfg ev c ''POST'' ''/projects'' (Some pdata) w) = Inl e
            \<longrightarrow> fst (create_project cfg ev c pdata w) = Inl e)
        \<and> (fst (make_request cfg ev c ''GET''
                  (''/projects/id:'' @ pid @ ''/versionedSettings/status'') None w) = Inl e
            \<longrightarrow> fst (get_versioned_settings cfg ev c pid w) = Inl e)
        \<and> (fst (make_request cfg ev c ''PUT''
                  (''/projects/'' @ pid @ ''/versionedSettings/config'') (Some vs) w) = Inl e
            \<longrightarrow> fst (enable_versioned_settings cfg ev c pid vs w) = Inl e)
        \<and> (fst (make_request cfg ev c ''POST''
                  (''/projects/'' @ pid @ ''/versionedSettings/synchronize'') None w) = Inl e
            \<longrightarrow> fst (trigger_versioned_settings_sync cfg ev c pid w) = Inl e)
        \<and> (fst (make_request cfg ev c ''GET'' (''/buildTypes?locator=project:'' @ pid) None w)
               = Inl e
            \<longrightarrow> fst (get_build_configurations cfg ev c pid w) = Inl e)
        \<and> (fst (make_request cfg ev c ''POST'' ''/buildQueue'' (Some (build_data bid props)) w)
               = Inl e
            \<longrightarrow> fst (trigger_build cfg ev c bid props w) = Inl e)
        \<and> (fst (make_request cfg ev c ''GET'' (''/builds/'' @ bid) None w) = Inl e
            \<longrightarrow> fst (get_build_status cfg ev c bid w) = Inl e)
        \<and> (fst (make_request cfg ev c ''GET''
                  (case vp of None \<Rightarrow> ''/vcs-roots''
                   | Some p \<Rightarrow> if p = [] then ''/vcs-roots''
                              else ''/vcs-roots?locator=project:'' @ p) None w) = Inl e
            \<longrightarrow> fst (get_vcs_roots cfg ev c vp w) = Inl e)
        \<and> (fst (make_request cfg ev c ''POST'' ''/vcs-roots'' (Some vdata) w) = Inl e
            \<longrightarrow> fst (create_vcs_root cfg ev c vdata w) = Inl e))
   \<and> fst (delete_project cfg ev c pid w) =
        (case fst (make_request cfg ev c ''DELETE'' (''/projects/'' @ pid) None w) of
           Inl e \<Rightarrow> if is_RequestException e then Inr False else Inl e
         | Inr resp \<Rightarrow> Inr True)
   \<and> (MAX_RETRIES cfg = int R \<and> 1 \<le> R \<and> 0 \<le> POLL_INTERVAL cfg
        \<and> (\<forall>k req. attempt_outcome ev req k = Inl (RequestException (msg k req)))
      \<longrightarrow> fst (get_projects cfg ev c w) = Inl (final_failure msg R w c ''GET'' ''/projects'' None)
        \<and> fst (get_project cfg ev c pid w)
            = Inl (final_failure msg R w c ''GET'' (''/projects/'' @ pid) None)
        \<and> fst (create_project cfg ev c pdata w)
            = Inl (final_failure msg R w c ''POST'' ''/projects'' (Some pdata))
        \<and> fst (get_versioned_settings cfg ev c pid w)
            = Inl (final_failure msg R w c ''GET''
                    (''/projects/id:'' @ pid @ ''/versionedSettings/status'') None)
        \<and> fst (enable_versioned_settings cfg ev c pid vs w)
            = Inl (final_failure msg R w c ''PUT''
                    (''/projects/'' @ pid @ ''/versionedSettings/config'') (Some vs))
        \<and> fst (trigger_versioned_settings_sync cfg ev c pid w)
            = Inl (final_failure msg R w c ''POST''
                    (''/projects/'' @ pid @ ''/versionedSettings/synchronize'') None)
        \<and> fst (get_build_configurations cfg ev c pid w)
            = Inl (final_failure msg R w c ''GET'' (''/buildTypes?locator=project:'' @ pid) None)
        \<and> fst (trigger_build cfg ev c bid props w)
            = Inl (final_failure msg R w c ''POST'' ''/buildQueue'' (Some (build_data bid props)))
        \<and> fst (get_build_status cfg ev c bid w)
            = Inl (final_failure msg R w c ''GET'' (''/builds/'' @ bid) None)
        \<and> fst (get_vcs_roots cfg ev c vp w)
            = Inl (final_failure msg R w c ''GET''
                    (case vp of None \<Rightarrow> ''/vcs-roots''
                     | Some p \<Rightarrow> if p = [] then ''/vcs-roots''
                                else ''/vcs-roots?locator=project:'' @ p) None)
        \<and> fst (create_vcs_root cfg ev c vdata w)
            = Inl (final_failure msg R w c ''POST'' ''/vcs-roots'' (Some vdata))
        \<and> fst (delete_project cfg ev c pid w) = Inr False)"
proof (intro conjI)
  show "1 \<le> MAX_RETRIES cfg \<longrightarrow>
        (\<forall>meth endpoint payload. \<exists>es.
            trace (snd (make_request cfg ev c meth endpoint payload w))
              = trace w @ Sent (request_for c meth endpoint payload) # es)"
    using make_request_sends by blast
next
  show "MAX_RETRIES cfg = int R \<and> 1 \<le> R \<and> 0 \<le> POLL_INTERVAL cfg
        \<and> (\<forall>k req. attempt_outcome ev req k = Inl (RequestException (msg k req)))
      \<longrightarrow> fst (get_projects cfg ev c w) = Inl (final_failure msg R w c ''GET'' ''/projects'' None)
        \<and> fst (get_project cfg ev c pid w)
            = Inl (final_failure msg R w c ''GET'' (''/projects/'' @ pid) None)
        \<and> fst (create_project cfg ev c pdata w)
            = Inl (final_failure msg R w c ''POST'' ''/projects'' (Some pdata))
        \<and> fst (get_versioned_settings cfg ev c pid w)
            = Inl (final_failure msg R w c ''GET''
                    (''/projects/id:'' @ pid @ ''/versionedSettings/status'') None)
        \<and> fst (enable_versioned_settings cfg ev c pid vs w)
            = Inl (final_failure msg R w c ''PUT''
                    (''/projects/'' @ pid @ ''/versionedSettings/config'') (Some vs))
        \<and> fst (trigger_versioned_settings_sync cfg ev c pid w)
            = Inl (final_failure msg R w c ''POST''
                    (''/projects/'' @ pid @ ''/versionedSettings/synchronize'') None)
        \<and> fst (get_build_configurations cfg ev c pid w)
            = Inl (final_failure msg R w c ''GET'' (''/buildTypes?locator=project:'' @ pid) None)
        \<and> fst (trigger_build cfg ev c bid props w)
            = Inl (final_failure msg R w c ''POST'' ''/buildQueue'' (Some (build_data bid props)))
        \<and> fst (get_build_status cfg ev c bid w)
            = Inl (final_failure msg R w c ''GET'' (''/builds/'' @ bid) None)
        \<and> fst (get_vcs_roots cfg ev c vp w)
            = Inl (final_failure msg R w c ''GET''
                    (case vp of None \<Rightarrow> ''/vcs-roots''
                     | Some p \<Rightarrow> if p = [] then ''/vcs-roots''
                                else ''/vcs-roots?locator=project:'' @ p) None)
        \<and> fst (create_vcs_root cfg ev c vdata w)
            = Inl (final_failure msg R w c ''POST'' ''/vcs-roots'' (Some vdata))
        \<and> fst (delete_project cfg ev c pid w) = Inr False"
  proof (intro impI, elim conjE)
    assume h: "MAX_RETRIES cfg = int R" "1 \<le> R" "0 \<le> POLL_INTERVAL cfg"
      "\<forall>k req. attempt_outcome ev req k = Inl (RequestException (msg k req))"
    note fail = make_request_all_fail[OF h]
    show "fst (get_projects cfg ev c w) = Inl (final_failure msg R w c ''GET'' ''/projects'' None)
        \<and> fst (get_project cfg ev c pid w)
            = Inl (final_failure msg R w c ''GET'' (''/projects/'' @ pid) None)
        \<and> fst (create_project cfg ev c pdata w)
            = Inl (final_failure msg R w c ''POST'' ''/projects'' (Some pdata))
        \<and> fst (get_versioned_settings cfg ev c pid w)
            = Inl (final_failure msg R w c ''GET''
                    (''/projects/id:'' @ pid @ ''/versionedSettings/status'') None)
        \<and> fst (enable_versioned_settings cfg ev c pid vs w)
            = Inl (final_failure msg R w c ''PUT''
                    (''/projects/'' @ pid @ ''/versionedSettings/config'') (Some vs))
        \<and> fst (trigger_versioned_settings_sync cfg ev c pid w)
            = Inl (final_failure msg R w c ''POST''
                    (''/projects/'' @ pid @ ''/versionedSettings/synchronize'') None)
        \<and> fst (get_build_configurations cfg ev c pid w)
            = Inl (final_failure msg R w c ''GET'' (''/buildTypes?locator=project:'' @ pid) None)
        \<and> fst (trigger_build cfg ev c bid props w)
            = Inl (final_failure msg R w c ''POST'' ''/buildQueue'' (Some (build_data bid props)))
        \<and> fst (get_build_status cfg ev c bid w)
            = Inl (final_failure msg R w c ''GET'' (''/builds/'' @ bid) None)
        \<and> fst (get_vcs_roots cfg ev c vp w)
            = Inl (final_failure msg R w c ''GET''
                    (case vp of None \<Rightarrow> ''/vcs-roots''
                     | Some p \<Rightarrow> if p = [] then ''/vcs-roots''
                                else ''/vcs-roots?locator=project:'' @ p) None)
        \<and> fst (create_vcs_root cfg ev c vdata w)
            = Inl (final_failure msg R w c ''POST'' ''/vcs-roots'' (Some vdata))
        \<and> fst (delete_project cfg ev c pid w) = Inr False"
      by (intro conjI wrapper_raises fail)
         (simp add: wrapper_fst(5) fail final_failure_def)
  qed
qed (simp_all add: wrapper_snd wrapper_fst(5) wrapper_raises)

text \<open>
  With the shipped settings. Against the dead server \<open>get_project\<close> raises the error
  of the third attempt and \<open>delete_project\<close> returns \<open>False\<close>; against the server
  that fails twice \<open>delete_project\<close> returns \<open>True\<close>, and its one \<open>DELETE\<close> request
  is the first thing it sends.
\<close>

theorem wrappers_propagate_except_delete_witness:
  "fst (make_request default_settings dead_server (TeamCityClient_init default_settings)
          ''GET'' ''/projects/P1'' None world0) = Inl (RequestException ''ConnectionError 2'')
   \<and> fst (get_project default_settings dead_server (TeamCityClient_init default_settings)
            ''P1'' world0) = Inl (RequestException ''ConnectionError 2'')
   \<and> fst (delete_project default_settings dead_server (TeamCityClient_init default_settings)
            ''P1'' world0) = Inr False
   \<and> fst (delete_project default_settings flaky_server (TeamCityClient_init default_settings)
            ''P1'' world0) = Inr True
   \<and> (\<exists>es. trace (snd (delete_project default_settings flaky_server
                         (TeamCityClient_init default_settings) ''P1'' world0))
            = Sent (request_for (TeamCityClient_init default_settings)
                      ''DELETE'' ''/projects/P1'' None) # es)"
proof -
  let ?c = "TeamCityClient_init default_settings"
  have dead: "fst (make_request default_settings dead_server ?c ''GET'' (''/projects/'' @ ''P1'')
                None world0) = Inl (RequestException ''ConnectionError 2'')"
    by (simp add: make_request_def make_request_from.simps try_request_def time_sleep_def
          default_settings_def world0_def dead_server_def str_nat.simps)
  have up: "fst (make_request default_settings flaky_server ?c ''DELETE'' (''/projects/'' @ ''P1'')
                None world0) = Inr (Some (ok_response (JObj [])))"
    by (simp add: make_request_def make_request_from.simps try_request_def time_sleep_def
          default_settings_def world0_def flaky_server_def requests_raise_for_status_def
          ok_response_def)
  have all_fail: "MAX_RETRIES default_settings = int 3 \<and> 1 \<le> (3::nat)
        \<and> 0 \<le> POLL_INTERVAL default_settings
        \<and> (\<forall>k req. attempt_outcome dead_server req k
                       = Inl (RequestException (dead_server_message k req)))"
    by (simp add: default_settings_def attempt_outcome_def dead_server_def dead_server_message_def)
  have one: "1 \<le> MAX_RETRIES default_settings" by (simp add: default_settings_def)
  note d = wrappers_propagate_except_delete[of default_settings dead_server ?c world0 "''P1''"
              _ _ _ _ _ _ 3 dead_server_message]
    and f = wrappers_propagate_except_delete[of default_settings flaky_server ?c world0 "''P1''"]
  have a: "fst (get_project default_settings dead_server ?c ''P1'' world0)
             = Inl (RequestException ''ConnectionError 2'')"
    using d dead by blast
  have b: "fst (delete_project default_settings dead_server ?c ''P1'' world0) = Inr False"
    using d all_fail by blast
  have t: "fst (delete_project default_settings flaky_server ?c ''P1'' world0) = Inr True"
    using f up by simp
  have "\<exists>es. trace (snd (make_request default_settings flaky_server ?c ''DELETE''
                          (''/projects/'' @ ''P1'') None world0))
            = trace world0 @ Sent (request_for ?c ''DELETE'' (''/projects/'' @ ''P1'') None) # es"
    using f one by blast
  moreover have "snd (delete_project default_settings flaky_server ?c ''P1'' world0)
      = snd (make_request default_settings flaky_server ?c ''DELETE'' (''/projects/'' @ ''P1'')
               None world0)"
    using f by blast
  ultimately have s: "\<exists>es. trace (snd (delete_project default_settings flaky_server ?c ''P1'' world0))
            = Sent (request_for ?c ''DELETE'' ''/projects/P1'' None) # es"
    by (simp add: world0_def)
  show ?thesis using dead a b t s by simp
qed

text \<open>
  The retry loop raises and \<open>delete_project\<close> does not pass it on: on the dead
  server \<open>_make_request\<close> for the \<open>DELETE\<close> ends in the third connection error, and
  \<open>delete_project\<close> returns \<open>False\<close>.
\<close>

theorem delete_project_swallows_failure:
  "fst (make_request default_settings dead_server (TeamCityClient_init default_settings)
          ''DELETE'' ''/projects/P1'' None world0) = Inl (RequestException ''ConnectionError 2'')
   \<and> fst (delete_project default_settings dead_server (TeamCityClient_init default_settings)
          ''P1'' world0) = Inr False"
  by (simp add: delete_project_def make_request_def make_request_from.simps try_request_def
        time_sleep_def default_settings_def world0_def dead_server_def str_nat.simps)

section \<open>Exceptions inside a polling predicate\<close>

text \<open>
  Claim C6. \<open>wait_for_condition\<close> has no handler: an exception that leaves the
  predicate leaves the wait at once. An exception raised inside a predicate that is
  written as the scenario tests write theirs, the body inside \<open>try\<close> with a bare
  \<open>except\<close> that returns \<open>False\<close>, is treated as "condition not yet met". Let the
  first \<open>n\<close> rounds of a wait on such a predicate begin before the deadline, the body
  saying no or raising in each: then every one of them is followed by the sleep and a
  further round. If in the round with index \<open>n\<close>, begun before the deadline, the
  body says yes, the wait returns \<open>True\<close>; if the deadline has passed when that
  round would begin, the wait raises its \<open>TimeoutError\<close>. With a positive poll interval
  and a body that does not turn the clock back the wait returns, and with nothing but
  \<open>True\<close> or that timeout.
\<close>

theorem predicate_exceptions_mean_not_yet:
  assumes "0 \<le> P"
    and "\<forall>j<n. clock ((poll_round body P ^^ j) w) - clock w < T
            \<and> (fst (body ((poll_round body P ^^ j) w)) = Inr False
                \<or> (\<exists>e. fst (body ((poll_round body P ^^ j) w)) = Inl e))"
  shows "(clock ((poll_round body P ^^ n) w) - clock w < T
          \<and> fst (body ((poll_round body P ^^ n) w)) = Inr True
          \<longrightarrow> wait_for_condition cfg (try_except_false body) (Some T) (Some P) msg w
                = Some (Inr True, snd (body ((poll_round body P ^^ n) w))))
       \<and> (T \<le> clock ((poll_round body P ^^ n) w) - clock w
          \<longrightarrow> wait_for_condition cfg (try_except_false body) (Some T) (Some P) msg w
                = Some (Inl (TimeoutError
                      (case msg of None \<Rightarrow> ''Condition not met within timeout'' | Some m \<Rightarrow> m)),
                        (poll_round body P ^^ n) w))
       \<and> (\<forall>e. 0 < T \<and> fst (body w) = Inl e
          \<longrightarrow> wait_for_condition cfg body (Some T) (Some P) msg w = Some (Inl e, snd (body w)))
       \<and> (0 < P \<and> (\<forall>v. clock v \<le> clock (snd (body v)))
          \<longrightarrow> (\<exists>r w'. wait_for_condition cfg (try_except_false body) (Some T) (Some P) msg w
                         = Some (r, w')
                 \<and> (r = Inr True
                     \<or> r = Inl (TimeoutError
                          (case msg of None \<Rightarrow> ''Condition not met within timeout'' | Some m \<Rightarrow> m))
                       \<and> T \<le> clock w' - clock w)))"
proof (intro conjI impI allI)
  let ?m = "case msg of None \<Rightarrow> ''Condition not met within timeout'' | Some m \<Rightarrow> m"
  let ?W = "(poll_round body P ^^ n) w"
  note rounds = wait_loop_guarded_rounds[OF assms, of ?m]
  {
    assume a: "clock ?W - clock w < T \<and> fst (body ?W) = Inr True"
    then have "fst (try_except_false body ?W) = Inr True"
      "snd (try_except_false body ?W) = snd (body ?W)"
      by (simp_all add: try_except_false_yes)
    then have "wait_loop (try_except_false body) T P ?m (clock w) ?W = Some (Inr True, snd (body ?W))"
      using wait_loop_yes[of ?W "clock w" T "try_except_false body" P ?m] a by simp
    then show "wait_for_condition cfg (try_except_false body) (Some T) (Some P) msg w
                = Some (Inr True, snd (body ?W))"
      using rounds by (simp add: wait_for_condition_def)
  }
  {
    assume "T \<le> clock ?W - clock w"
    then have "wait_loop (try_except_false body) T P ?m (clock w) ?W
                 = Some (Inl (TimeoutError ?m), ?W)"
      by (rule wait_loop_deadline_passed)
    then show "wait_for_condition cfg (try_except_false body) (Some T) (Some P) msg w
                = Some (Inl (TimeoutError ?m), ?W)"
      using rounds by (simp add: wait_for_condition_def)
  }
  {
    fix e assume "0 < T \<and> fst (body w) = Inl e"
    then show "wait_for_condition cfg body (Some T) (Some P) msg w = Some (Inl e, snd (body w))"
      by (simp add: wait_for_condition_def wait_loop_propagates)
  }
  {
    assume h: "0 < P \<and> (\<forall>v. clock v \<le> clock (snd (body v)))"
    have "\<exists>r w'. wait_loop (try_except_false body) T P ?m (clock w) w = Some (r, w')
          \<and> (r = Inr True \<or> r = Inl (TimeoutError ?m) \<and> T \<le> clock w' - clock w)"
    proof (rule wait_loop_rule[where Q = "\<lambda>w0 r w'. r = Inr True
             \<or> r = Inl (TimeoutError ?m) \<and> T \<le> clock w' - clock w"])
      fix v :: world
      have "clock v \<le> clock (snd (body v))" using h by blast
      then show "clock v < clock (snd (try_except_false body v)) + P"
        using h unfolding try_except_false_snd by linarith
    next
      fix v :: world and e
      assume "fst (try_except_false body v) = Inl e"
      then show "Inl e = Inr True \<or> Inl e = Inl (TimeoutError ?m)
          \<and> T \<le> clock (snd (try_except_false body v)) - clock w"
        using try_except_false_bool[of body v] by simp
    next
      fix v :: world
      assume "P < 0"
      then show "Inl (ValueError ''sleep length must be non-negative'') = Inr True
         \<or> Inl (ValueError ''sleep length must be non-negative'') = Inl (TimeoutError ?m)
          \<and> T \<le> clock (snd (try_except_false body v)) - clock w"
        using h by simp
    qed simp_all
    then show "\<exists>r w'. wait_for_condition cfg (try_except_false body) (Some T) (Some P) msg w
                         = Some (r, w')
                 \<and> (r = Inr True \<or> r = Inl (TimeoutError ?m) \<and> T \<le> clock w' - clock w)"
      by (simp add: wait_for_condition_def)
  }
qed

text \<open>
  \<open>project_ready\<close> with the shipped settings, polled every 2 ticks for 30. Against
  the server that wakes up at its fifth request the body raises in the first round (all
  three attempts fail), the predicate says no, and the second round, begun at tick 5,
  finds the project: the wait returns \<open>True\<close> after five requests. Against the dead
  server four rounds raise, the fifth would begin at tick 36, and the wait ends in its
  own timeout. The body polled without its \<open>try\<close>/\<open>except\<close> lets the connection
  error out of the wait.
\<close>

theorem predicate_exceptions_mean_not_yet_witness:
  "fst (project_ready_body default_settings waking_server (TeamCityClient_init default_settings)
          ''P1'' world0) = Inl (RequestException ''ConnectionError 2'')
   \<and> (\<exists>w'. wait_for_condition default_settings
                 (project_ready default_settings waking_server
                    (TeamCityClient_init default_settings) ''P1'') (Some 30) (Some 2) None world0
               = Some (Inr True, w')
          \<and> sent w' = 5)
   \<and> (\<exists>w'. wait_for_condition default_settings
                 (project_ready default_settings dead_server
                    (TeamCityClient_init default_settings) ''P1'') (Some 30) (Some 2) None world0
               = Some (Inl (TimeoutError ''Condition not met within timeout''), w')
          \<and> sent w' = 12 \<and> clock w' = 36)
   \<and> wait_for_condition default_settings
         (project_ready_body default_settings waking_server
            (TeamCityClient_init default_settings) ''P1'') (Some 30) (Some 2) None world0
       = Some (Inl (RequestException ''ConnectionError 2''),
               snd (project_ready_body default_settings waking_server
                      (TeamCityClient_init default_settings) ''P1'' world0))"
proof -
  let ?c = "TeamCityClient_init default_settings"
  let ?wake = "project_ready_body default_settings waking_server ?c ''P1''"
  let ?dead = "project_ready_body default_settings dead_server ?c ''P1''"
  note defs = poll_round_def project_ready_body_def get_project_def returning_json_def
    response_json_def dict_get_def make_request_def make_request_from.simps try_request_def
    time_sleep_def default_settings_def world0_def requests_raise_for_status_def ok_response_def
  have w0: "fst (?wake world0) = Inl (RequestException ''ConnectionError 2'')"
    "clock world0 - clock world0 < (30::int)"
    by (simp_all add: defs waking_server_def str_nat.simps)
  have w1: "clock ((poll_round ?wake 2 ^^ 1) world0) - clock world0 < 30"
    "fst (?wake ((poll_round ?wake 2 ^^ 1) world0)) = Inr True"
    "sent (snd (?wake ((poll_round ?wake 2 ^^ 1) world0))) = 5"
    by (simp_all add: defs waking_server_def)
  have wake_rounds: "\<forall>j<1. clock ((poll_round ?wake 2 ^^ j) world0) - clock world0 < 30
            \<and> (fst (?wake ((poll_round ?wake 2 ^^ j) world0)) = Inr False
                \<or> (\<exists>e. fst (?wake ((poll_round ?wake 2 ^^ j) world0)) = Inl e))"
    using w0 by simp
  have dead_rounds: "\<forall>j<4. clock ((poll_round ?dead 2 ^^ j) world0) - clock world0 < 30
            \<and> (fst (?dead ((poll_round ?dead 2 ^^ j) world0)) = Inr False
                \<or> (\<exists>e. fst (?dead ((poll_round ?dead 2 ^^ j) world0)) = Inl e))"
    by (simp add: defs dead_server_def less_Suc_eq eval_nat_numeral)
  have d4: "30 \<le> clock ((poll_round ?dead 2 ^^ 4) world0) - clock world0"
    "sent ((poll_round ?dead 2 ^^ 4) world0) = 12"
    "clock ((poll_round ?dead 2 ^^ 4) world0) = 36"
    by (simp_all add: defs dead_server_def eval_nat_numeral)
  have nn: "(0::int) \<le> 2" by simp
  note tw = predicate_exceptions_mean_not_yet[OF nn wake_rounds, of default_settings None]
    and td = predicate_exceptions_mean_not_yet[OF nn dead_rounds, of default_settings None]
  have a: "\<exists>w'. wait_for_condition default_settings
                 (project_ready default_settings waking_server ?c ''P1'') (Some 30) (Some 2) None
                 world0 = Some (Inr True, w') \<and> sent w' = 5"
    using tw w1 by (auto simp: project_ready_def)
  have b: "\<exists>w'. wait_for_condition default_settings
                 (project_ready default_settings dead_server ?c ''P1'') (Some 30) (Some 2) None
                 world0 = Some (Inl (TimeoutError ''Condition not met within timeout''), w')
          \<and> sent w' = 12 \<and> clock w' = 36"
    using td d4 by (auto simp: project_ready_def)
  have c: "wait_for_condition default_settings ?wake (Some 30) (Some 2) None world0
       = Some (Inl (RequestException ''ConnectionError 2''), snd (?wake world0))"
    using tw w0(1) by simp
  show ?thesis using w0(1) a b c by blast
qed

text \<open>
  A predicate without a handler of its own: it raises at its first call and would be
  true at its second. The wait does not poll again; the exception comes out of it
  after one evaluation, one tick into a timeout of 30.
\<close>

theorem wait_for_condition_lets_exception_out:
  "wait_for_condition default_settings (scripted raises_then_true) (Some 30) (Some 2) None world0
     = Some (Inl (RequestException ''ConnectionError''),
             \<lparr>clock = 1, sent = 0, calls = 1, trace = [Evaluated 0]\<rparr>)
   \<and> fst (raises_then_true 1) = Inr True"
  by (simp add: wait_for_condition_def wait_loop.simps scripted_def raises_then_true_def
        world0_def)

section \<open>How often the predicate is evaluated\<close>

text \<open>
  Claim C7. For every timeout \<open>T > 0\<close> and poll interval \<open>P > 0\<close>, and whatever the
  predicate returns or raises, \<open>wait_for_condition\<close> terminates, having evaluated the
  predicate at most \<open>\<lceil>T / P\<rceil> + 1\<close> times.
\<close>

theorem wait_for_condition_evaluation_bound:
  assumes "0 < T" and "0 < P"
  shows "\<exists>r w'. wait_for_condition cfg (scripted f) (Some T) (Some P) msg w = Some (r, w')
           \<and> calls w \<le> calls w'
           \<and> int (calls w' - calls w) \<le> \<lceil>real_of_int T / real_of_int P\<rceil> + 1"
proof -
  obtain r w' where rw:
    "wait_loop (scripted f) T P
       (case msg of None \<Rightarrow> ''Condition not met within timeout'' | Some m \<Rightarrow> m) (clock w) w
       = Some (r, w')"
    "calls w \<le> calls w'"
    "calls w' = calls w \<or> clock w - clock w + (int (calls w' - calls w) - 1) * P < T"
    using wait_loop_evaluations[OF assms(2)] by blast
  have "0 < real_of_int T / real_of_int P" using assms by simp
  then have c0: "0 \<le> \<lceil>real_of_int T / real_of_int P\<rceil>" by linarith
  define n where "n = calls w' - calls w"
  have "int n \<le> \<lceil>real_of_int T / real_of_int P\<rceil> + 1"
  proof (cases "n = 0")
    case True
    then show ?thesis using c0 by simp
  next
    case False
    then have "(int n - 1) * P < T" using rw(2,3) by (auto simp: n_def)
    then have "int n \<le> \<lceil>real_of_int T / real_of_int P\<rceil>"
      using evaluations_bound[OF assms(2), of n T] False by simp
    then show ?thesis by simp
  qed
  then have "int (calls w' - calls w) \<le> \<lceil>real_of_int T / real_of_int P\<rceil> + 1"
    by (simp add: n_def)
  then show ?thesis using rw(1,2) by (simp add: wait_for_condition_def)
qed

text \<open>
  A timeout of 7 and an interval of 2 against a predicate that is never true: the wait
  ends, after no more than \<open>\<lceil>7 / 2\<rceil> + 1 = 5\<close> evaluations.
\<close>

theorem wait_for_condition_evaluation_bound_witness:
  "\<exists>r w'. wait_for_condition default_settings (scripted never_true) (Some 7) (Some 2) None world0
             = Some (r, w')
     \<and> int (calls w') \<le> 5"
proof -
  have "\<lceil>real_of_int 7 / real_of_int 2\<rceil> = (4::int)" by (simp add: ceiling_eq_iff)
  then show ?thesis
    using wait_for_condition_evaluation_bound[of 7 2 default_settings never_true None world0]
    by (auto simp: world0_def)
qed

section \<open>Authentication\<close>




section \<open>The build trigger payload\<close>

text \<open>
  Claim C9. Every request \<open>trigger_build\<close> sends is a \<open>POST\<close> to \<open>/buildQueue\<close>
  whose payload is a dict with \<open>buildType\<close> equal to \<open>{'id': build_config_id}\<close>. The
  payload has the key \<open>properties\<close>, bound to \<open>{'property': [...]}\<close> with one
  \<open>{'name': k, 'value': v}\<close> per parameter, exactly when parameters are given and not
  empty; otherwise the key is absent. With a budget of at least one attempt a request
  is sent.
\<close>

theorem trigger_build_payload:
  "\<exists>es. trace (snd (trigger_build cfg ev c bid props w)) = trace w @ es
     \<and> (1 \<le> MAX_RETRIES cfg \<longrightarrow> (\<exists>r. Sent r \<in> set es))
     \<and> (\<forall>r. Sent r \<in> set es \<longrightarrow>
           http_method r = ''POST'' \<and> url r = base_url c @ ''/app/rest/buildQueue''
           \<and> (\<exists>kvs. json_payload r = Some (JObj kvs)
                \<and> map_of kvs ''buildType'' = Some (JObj [(''id'', JStr bid)])
                \<and> map_of kvs ''properties'' =
                     (case props of
                        None \<Rightarrow> None
                      | Some ps \<Rightarrow> if ps = [] then None
                                   else Some (JObj [(''property'', property_entries ps)]))))"
proof -
  let ?req = "request_for c ''POST'' ''/buildQueue'' (Some (build_data bid props))"
  have snd_eq: "snd (trigger_build cfg ev c bid props w) = snd (make_request_from cfg ev ?req 0 w)"
    by (simp add: trigger_build_def returning_json_snd make_request_def)
  obtain es where es: "trace (snd (make_request_from cfg ev ?req 0 w)) = trace w @ es"
    "set es \<subseteq> {Sent ?req, Slept (POLL_INTERVAL cfg)}"
    using make_request_from_trace by blast
  have first: "1 \<le> MAX_RETRIES cfg \<longrightarrow> (\<exists>r. Sent r \<in> set es)"
  proof
    assume "1 \<le> MAX_RETRIES cfg"
    then have lt: "int 0 < MAX_RETRIES cfg" by simp
    obtain r w1 where t: "try_request ev ?req w = (r, w1)" by (cases "try_request ev ?req w")
    have t1: "trace w1 = trace w @ [Sent ?req]" using try_request_trace[of ev ?req w] t by simp
    have "\<exists>es'. trace (snd (make_request_from cfg ev ?req 0 w)) = trace w1 @ es'"
    proof -
      obtain s w2 where s: "time_sleep (POLL_INTERVAL cfg) w1 = (s, w2)"
        by (cases "time_sleep (POLL_INTERVAL cfg) w1")
      have p2: "\<exists>es'. trace w2 = trace w1 @ es'"
        using s by (auto simp: time_sleep_def split: if_splits)
      obtain es2 where "trace (snd (make_request_from cfg ev ?req (Suc 0) w2)) = trace w2 @ es2"
        using make_request_from_trace by blast
      then have p3: "\<exists>es'. trace (snd (make_request_from cfg ev ?req (Suc 0) w2)) = trace w1 @ es'"
        using p2 by auto
      show ?thesis
        using lt t s p2 p3 by (subst make_request_from.simps) (auto split: sum.splits)
    qed
    then obtain es' where "trace w @ es = trace w @ [Sent ?req] @ es'" using es(1) t1 by auto
    then have "es = Sent ?req # es'" by simp
    then show "\<exists>r. Sent r \<in> set es" by auto
  qed
  obtain kvs where kvs: "build_data bid props = JObj kvs"
     "map_of kvs ''buildType'' = Some (JObj [(''id'', JStr bid)])"
     "map_of kvs ''properties'' =
          (case props of
             None \<Rightarrow> None
           | Some ps \<Rightarrow> if ps = [] then None
                        else Some (JObj [(''property'', property_entries ps)]))"
    using build_data_shape by blast
  have "\<forall>r. Sent r \<in> set es \<longrightarrow> r = ?req" using es(2) by auto
  then have "\<forall>r. Sent r \<in> set es \<longrightarrow>
           http_method r = ''POST'' \<and> url r = base_url c @ ''/app/rest/buildQueue''
           \<and> (\<exists>kvs. json_payload r = Some (JObj kvs)
                \<and> map_of kvs ''buildType'' = Some (JObj [(''id'', JStr bid)])
                \<and> map_of kvs ''properties'' =
                     (case props of
                        None \<Rightarrow> None
                      | Some ps \<Rightarrow> if ps = [] then None
                                   else Some (JObj [(''property'', property_entries ps)])))"
    using kvs by (auto simp: request_for_def)
  then show ?thesis using es(1) first snd_eq by auto
qed

text \<open>
  The call of \<open>test_pipeline_execution_with_parameters\<close>, cut to one parameter: a
  request is sent, and it carries the build type and the one-entry properties block.
\<close>

theorem trigger_build_payload_witness:
  "\<exists>es r kvs. trace (snd (trigger_build default_settings flaky_server
                  (TeamCityClient_init default_settings) ''Proj_Build''
                  (Some [(''env.TEST_PARAM'', ''test_value'')]) world0)) = es
     \<and> Sent r \<in> set es
     \<and> http_method r = ''POST'' \<and> url r = ''http://localhost:8111/app/rest/buildQueue''
     \<and> json_payload r = Some (JObj kvs)
     \<and> map_of kvs ''buildType'' = Some (JObj [(''id'', JStr ''Proj_Build'')])
     \<and> map_of kvs ''properties'' =
          Some (JObj [(''property'',
             JList [JObj [(''name'', JStr ''env.TEST_PARAM''), (''value'', JStr ''test_value'')]])])"
proof -
  let ?c = "TeamCityClient_init default_settings"
  let ?w = "snd (trigger_build default_settings flaky_server ?c ''Proj_Build''
                  (Some [(''env.TEST_PARAM'', ''test_value'')]) world0)"
  obtain es where es: "trace ?w = trace world0 @ es"
    "1 \<le> MAX_RETRIES default_settings \<longrightarrow> (\<exists>r. Sent r \<in> set es)"
    "\<forall>r. Sent r \<in> set es \<longrightarrow>
           http_method r = ''POST'' \<and> url r = base_url ?c @ ''/app/rest/buildQueue''
           \<and> (\<exists>kvs. json_payload r = Some (JObj kvs)
                \<and> map_of kvs ''buildType'' = Some (JObj [(''id'', JStr ''Proj_Build'')])
                \<and> map_of kvs ''properties'' =
                     (case Some [(''env.TEST_PARAM'', ''test_value'')] of
                        None \<Rightarrow> None
                      | Some ps \<Rightarrow> if ps = [] then None
                                   else Some (JObj [(''property'', property_entries ps)])))"
    using trigger_build_payload[of default_settings flaky_server ?c
          "''Proj_Build''" "Some [(''env.TEST_PARAM'', ''test_value'')]" world0]
    by blast
  have "1 \<le> MAX_RETRIES default_settings" by (simp add: default_settings_def)
  then obtain r where r: "Sent r \<in> set es" using es(2) by blast
  then obtain kvs where k: "http_method r = ''POST''"
    "url r = base_url ?c @ ''/app/rest/buildQueue''"
    "json_payload r = Some (JObj kvs)"
    "map_of kvs ''buildType'' = Some (JObj [(''id'', JStr ''Proj_Build'')])"
    "map_of kvs ''properties'' =
       Some (JObj [(''property'', property_entries [(''env.TEST_PARAM'', ''test_value'')])])"
    using es(3) by auto
  have b: "base_url ?c = ''http://localhost:8111''"
    by (simp add: TeamCityClient_init_def default_settings_def Let_def)
  have t: "trace ?w = es" using es(1) by (simp add: world0_def)
  show ?thesis
    using r k b t by (intro exI[of _ es] exI[of _ r] exI[of _ kvs]) (simp add: property_entries_def)
qed

section \<open>Empty listings\<close>

text \<open>
  Claim C10. When the server answers successfully with a dict that has none of the
  keys \<open>buildType\<close>, \<open>project\<close> and \<open>vcs-root\<close>, \<open>get_build_configurations\<close>
  returns \<open>None\<close> while \<open>get_projects\<close> and \<open>get_vcs_roots\<close> return the empty list.
\<close>

theorem listing_empty_results_disagree:
  assumes "1 \<le> MAX_RETRIES cfg"
    and "\<forall>k req. \<exists>resp kvs. attempt_outcome ev req k = Inr resp \<and> json_body resp = Inr (JObj kvs)
            \<and> map_of kvs ''buildType'' = None \<and> map_of kvs ''project'' = None
            \<and> map_of kvs ''vcs-root'' = None"
  shows "fst (get_build_configurations cfg ev c pid w) = Inr JNull
       \<and> fst (get_projects cfg ev c w) = Inr (JList [])
       \<and> fst (get_vcs_roots cfg ev c vp w) = Inr (JList [])"
proof -
  have mr: "\<exists>resp kvs. make_request cfg ev c meth endpoint None w
               = (Inr (Some resp), snd (try_request ev (request_for c meth endpoint None) w))
             \<and> json_body resp = Inr (JObj kvs)
             \<and> map_of kvs ''buildType'' = None \<and> map_of kvs ''project'' = None
             \<and> map_of kvs ''vcs-root'' = None" for meth endpoint
  proof -
    obtain resp kvs where r: "attempt_outcome ev (request_for c meth endpoint None) (sent w) = Inr resp"
      "json_body resp = Inr (JObj kvs)" "map_of kvs ''buildType'' = None"
      "map_of kvs ''project'' = None" "map_of kvs ''vcs-root'' = None"
      using assms(2) by blast
    have "int 0 < MAX_RETRIES cfg" using assms(1) by simp
    from make_request_from_success[OF this r(1)] r(2-5) show ?thesis
      unfolding make_request_def by blast
  qed
  have a: "fst (get_build_configurations cfg ev c pid w) = Inr JNull"
    using mr[of "''GET''" "''/buildTypes?locator=project:'' @ pid"]
    by (auto simp: wrapper_fst response_json_def dict_get_def)
  have b: "fst (get_projects cfg ev c w) = Inr (JList [])"
    using mr[of "''GET''" "''/projects''"]
    by (auto simp: wrapper_fst response_json_def dict_get_def)
  have c: "fst (get_vcs_roots cfg ev c vp w) = Inr (JList [])"
  proof (cases vp)
    case None
    then show ?thesis using mr[of "''GET''" "''/vcs-roots''"]
      by (auto simp: wrapper_fst response_json_def dict_get_def)
  next
    case (Some p)
    then show ?thesis
      using mr[of "''GET''" "''/vcs-roots''"] mr[of "''GET''" "''/vcs-roots?locator=project:'' @ p"]
      by (cases "p = []") (auto simp: wrapper_fst response_json_def dict_get_def)
  qed
  show ?thesis using a b c by simp
qed

text \<open>
  A server that answers every listing with \<open>{"count": 0}\<close>: \<open>None\<close> from the one
  operation, the empty list from the other two.
\<close>

theorem listing_empty_results_disagree_witness:
  "fst (get_build_configurations default_settings empty_listing_server
          (TeamCityClient_init default_settings) ''TestProject'' world0) = Inr JNull
   \<and> fst (get_projects default_settings empty_listing_server
          (TeamCityClient_init default_settings) world0) = Inr (JList [])
   \<and> fst (get_vcs_roots default_settings empty_listing_server
          (TeamCityClient_init default_settings) None world0) = Inr (JList [])"
  using listing_empty_results_disagree[of default_settings empty_listing_server
          "TeamCityClient_init default_settings" "''TestProject''" world0 None]
  by (simp add: default_settings_def attempt_outcome_def empty_listing_server_def
        requests_raise_for_status_def ok_response_def)

end
